theory Spec2Isabelle
  imports Main "HOL-Library.Word"
begin

section \<open>The DTLS-SRTP transport of libdatachannel (dtlssrtptransport.cpp)\<close>

text \<open>
  The transport sits between a DTLS transport (its base class) and libsrtp. The model
  follows \<^verbatim>\<open>src/src/dtlssrtptransport.cpp\<close> function by function. The state of a
  transport is a record; every call the transport makes to the outside (the logger,
  libsrtp, the TLS library, the base class, the receive callback, the lower transport)
  is appended to a trace, in program order, so that "what was called, with what" can be
  read off the result. The outside libraries are parameters of the model.
\<close>

subsection \<open>Bytes, messages, buffers\<close>

type_synonym byte = "8 word"
type_synonym bytes = "byte list"

text \<open>A message is a vector of bytes; a \<^verbatim>\<open>message_ptr\<close> is a shared pointer to
  one, \<open>None\<close> being the null pointer.\<close>

type_synonym message = bytes
type_synonym message_ptr = "message option"

text \<open>\<^verbatim>\<open>std::vector::resize(n)\<close>: cut to \<open>n\<close> elements, or fill up with zero bytes.\<close>

definition resize :: "nat \<Rightarrow> bytes \<Rightarrow> bytes" where
  "resize n xs = take n xs @ replicate (n - length xs) 0"

text \<open>A pointer into a byte buffer: the buffer and an offset. \<^verbatim>\<open>memcpy(dst, p, n)\<close>
  reads \<open>n\<close> bytes from \<open>p\<close> on.\<close>

type_synonym ptr = "bytes \<times> nat"

definition ptr_add :: "ptr \<Rightarrow> nat \<Rightarrow> ptr" where
  "ptr_add p n = (fst p, snd p + n)"

definition memcpy_from :: "ptr \<Rightarrow> nat \<Rightarrow> bytes" where
  "memcpy_from p n = take n (drop (snd p) (fst p))"

subsection \<open>Exceptions and results\<close>

text \<open>Texts streamed to the logger or put into an exception: string pieces, numbers
  (\<^verbatim>\<open>to_string\<close>, \<^verbatim>\<open>operator<<\<close>) and the TLS library's own error text.\<close>

datatype text_part = Str string | Num int | LibError

datatype exn = runtime_error "text_part list" | logic_error "text_part list"

datatype 'a outcome = Returned 'a | Threw exn

subsection \<open>libsrtp: status codes, lengths, policies\<close>

text \<open>\<^verbatim>\<open>srtp_err_status_t\<close> is a C enum of libsrtp. The code tests a status for being
  non-zero, so zero is success; the value of \<^verbatim>\<open>srtp_err_status_replay_fail\<close> is a
  parameter (see the backend below).\<close>

type_synonym srtp_err_status_t = int

definition srtp_err_status_ok :: srtp_err_status_t where
  "srtp_err_status_ok = 0"

text \<open>Modelled from the spec: the libsrtp macros \<^verbatim>\<open>SRTP_AES_128_KEY_LEN\<close>,
  \<^verbatim>\<open>SRTP_SALT_LEN\<close> and \<^verbatim>\<open>SRTP_AES_ICM_128_KEY_LEN_WSALT\<close>, whose header is not
  among the sources. The specification gives a 16-byte key, a 14-byte salt and a 30-byte
  session key (key and salt).\<close>

definition SRTP_AES_128_KEY_LEN :: nat where
  "SRTP_AES_128_KEY_LEN = 16"

definition SRTP_SALT_LEN :: nat where
  "SRTP_SALT_LEN = 14"

definition SRTP_AES_ICM_128_KEY_LEN_WSALT :: nat where
  "SRTP_AES_ICM_128_KEY_LEN_WSALT = SRTP_SALT_LEN + SRTP_AES_128_KEY_LEN"

datatype srtp_crypto_policy_t = crypto_policy_zero | aes_cm_128_hmac_sha1_80

datatype srtp_ssrc_type_t = ssrc_undefined | ssrc_specific | ssrc_any_inbound | ssrc_any_outbound

text \<open>The fields of \<^verbatim>\<open>srtp_policy_t\<close> that the code sets (\<^verbatim>\<open>next\<close> is always the
  null pointer). \<open>key\<close> is the content of the 30-byte array the code points it to.\<close>

record srtp_policy_t =
  ssrc_type :: srtp_ssrc_type_t
  ssrc_value :: nat
  rtp :: srtp_crypto_policy_t
  rtcp :: srtp_crypto_policy_t
  key :: bytes

record gnutls_datum_t =
  datum_data :: bytes
  datum_size :: nat

subsection \<open>The trace of calls to the outside\<close>

datatype severity = verbose | debug | info | warning

datatype srtp_handle = SrtpIn | SrtpOut

datatype event =
    Plog severity "text_part list"
  | SrtpProtect bytes nat
  | SrtpUnprotect bytes nat
  | SrtpAddStream srtp_handle srtp_policy_t
  | SslExportKeyingMaterial nat string "bytes option"
  | GnutlsSrtpGetKeys nat
  | Outgoing message
  | DtlsIncoming message
  | SrtpRecvCallback message

fun is_plog :: "event \<Rightarrow> bool" where
  "is_plog (Plog _ _) = True"
| "is_plog _ = False"

fun is_warning :: "event \<Rightarrow> bool" where
  "is_warning (Plog warning _) = True"
| "is_warning _ = False"

fun is_export :: "event \<Rightarrow> bool" where
  "is_export (SslExportKeyingMaterial _ _ _) = True"
| "is_export (GnutlsSrtpGetKeys _) = True"
| "is_export _ = False"

fun is_add_stream :: "event \<Rightarrow> bool" where
  "is_add_stream (SrtpAddStream _ _) = True"
| "is_add_stream _ = False"

fun is_outgoing :: "event \<Rightarrow> bool" where
  "is_outgoing (Outgoing _) = True"
| "is_outgoing _ = False"

text \<open>The calls other than log lines.\<close>

definition calls :: "event list \<Rightarrow> event list" where
  "calls evs = filter (\<lambda>e. \<not> is_plog e) evs"

subsection \<open>The libraries the transport calls\<close>

text \<open>
  libsrtp and the TLS library are not part of the repository: they are parameters.
  \<^item> \<open>USE_GNUTLS\<close> is the build flag that selects the TLS backend.
  \<^item> \<open>SRTP_MAX_TRAILER_LEN\<close> is libsrtp's macro, \<open>srtp_err_status_replay_fail\<close> its
    status code for a replayed packet.
  \<^item> \<open>srtp_protect sess buf len\<close> and \<open>srtp_unprotect\<close> work in place: they give the
    status, the session, the buffer and the length as the call leaves them.
  \<^item> \<open>SSL_export_keying_material tls olen label context\<close> gives OpenSSL's result and the
    content of the output buffer; \<open>None\<close> is the null context with \<^verbatim>\<open>use_context = 0\<close>.
  \<^item> \<open>gnutls_srtp_get_keys tls len\<close> gives GnuTLS's result and the four datums, in the
    order client key, client salt, server key, server salt.
  \<^item> \<open>gnutls_check ret message\<close> is \<^verbatim>\<open>gnutls::check\<close> of the repository's tls.cpp,
    which is not among the sources: it returns a flag or throws.
\<close>

record ('s, 't) backend =
  USE_GNUTLS :: bool
  SRTP_MAX_TRAILER_LEN :: nat
  srtp_err_status_replay_fail :: srtp_err_status_t
  srtp_protect :: "'s \<Rightarrow> bytes \<Rightarrow> nat \<Rightarrow> srtp_err_status_t \<times> 's \<times> bytes \<times> nat"
  srtp_unprotect :: "'s \<Rightarrow> bytes \<Rightarrow> nat \<Rightarrow> srtp_err_status_t \<times> 's \<times> bytes \<times> nat"
  srtp_add_stream :: "'s \<Rightarrow> srtp_policy_t \<Rightarrow> srtp_err_status_t \<times> 's"
  SSL_export_keying_material :: "'t \<Rightarrow> nat \<Rightarrow> string \<Rightarrow> bytes option \<Rightarrow> int \<times> bytes"
  gnutls_srtp_get_keys ::
    "'t \<Rightarrow> nat \<Rightarrow> int \<times> gnutls_datum_t \<times> gnutls_datum_t \<times> gnutls_datum_t \<times> gnutls_datum_t"
  gnutls_check :: "int \<Rightarrow> string \<Rightarrow> bool outcome"

subsection \<open>The transport\<close>

text \<open>\<open>mSsl\<close> stands for the TLS session of the base class (\<^verbatim>\<open>mSsl\<close> or
  \<^verbatim>\<open>mSession\<close>), \<open>mIsClient\<close> for the base class's role flag.\<close>

record ('s, 't) DtlsSrtpTransport =
  mInitDone :: bool
  mIsClient :: bool
  mSrtpIn :: 's
  mSrtpOut :: 's
  mSsl :: 't
  trace :: "event list"

definition emit :: "event \<Rightarrow> ('s, 't) DtlsSrtpTransport \<Rightarrow> ('s, 't) DtlsSrtpTransport" where
  "emit e s = s\<lparr>trace := trace s @ [e]\<rparr>"

definition plog :: "severity \<Rightarrow> text_part list \<Rightarrow> ('s, 't) DtlsSrtpTransport \<Rightarrow> ('s, 't) DtlsSrtpTransport" where
  "plog sev txt s = emit (Plog sev txt) s"

text \<open>What a call appended to the trace.\<close>

definition new_events :: "('s, 't) DtlsSrtpTransport \<Rightarrow> ('s, 't) DtlsSrtpTransport \<Rightarrow> event list" where
  "new_events s s' = drop (length (trace s)) (trace s')"

subsection \<open>sendMedia (lines 64-90)\<close>

text \<open>The caller keeps the message it passes (a shared pointer), so the model gives
  back what the call left in it, next to the result and the transport.\<close>

definition sendMedia ::
  "('s, 't) backend \<Rightarrow> message_ptr \<Rightarrow> ('s, 't) DtlsSrtpTransport
     \<Rightarrow> bool outcome \<times> message_ptr \<times> ('s, 't) DtlsSrtpTransport" where
  "sendMedia lib message s =
    (case message of
       None \<Rightarrow> (Returned False, message, s)
     | Some m \<Rightarrow>
        if \<not> mInitDone s then
          (Returned False, message, plog warning [Str ''SRTP media sent before keys are derived''] s)
        else
          let size0 = length m;
              s1 = plog verbose [Str ''Send size='', Num (int size0)] s;
              buf = resize (size0 + SRTP_MAX_TRAILER_LEN lib) m;
              s2 = emit (SrtpProtect buf size0) s1;
              (err, sess', buf', size') = srtp_protect lib (mSrtpOut s2) buf size0;
              s3 = s2\<lparr>mSrtpOut := sess'\<rparr>
          in if err \<noteq> 0 then
               (if err = srtp_err_status_replay_fail lib then
                  (Threw (runtime_error [Str ''SRTP packet is a replay'']), Some buf', s3)
                else
                  (Threw (runtime_error [Str ''SRTP protect error, status='', Num err]), Some buf', s3))
             else
               let s4 = plog verbose [Str ''Protected SRTP packet, size='', Num (int size')] s3;
                   m' = resize size' buf';
                   s5 = emit (Outgoing m') s4
               in (Returned True, Some m', s5))"

subsection \<open>incoming (lines 92-132)\<close>

text \<open>Datagrams come from the lower transport and are never null.\<close>

definition incoming ::
  "('s, 't) backend \<Rightarrow> message \<Rightarrow> ('s, 't) DtlsSrtpTransport
     \<Rightarrow> unit outcome \<times> ('s, 't) DtlsSrtpTransport" where
  "incoming lib message s =
    (if \<not> mInitDone s then
       (Returned (), emit (DtlsIncoming message) s)
     else
       let size0 = length message in
       if size0 = 0 then (Returned (), s)
       else
         let v = hd message;
             s1 = plog verbose [Str ''Demultiplexing packet with first byte, value='', Num (uint v)] s
         in if v \<ge> 128 \<and> v \<le> 191 then
              (Returned (),
               emit (DtlsIncoming message)
                 (plog verbose [Str ''Incoming DTLS packet, size='', Num (int size0)] s1))
            else if v \<ge> 20 \<and> v \<le> 63 then
              let s2 = plog verbose [Str ''Incoming SRTP packet, size='', Num (int size0)] s1;
                  s3 = emit (SrtpUnprotect message size0) s2;
                  (err, sess', buf', size') = srtp_unprotect lib (mSrtpIn s3) message size0;
                  s4 = s3\<lparr>mSrtpIn := sess'\<rparr>
              in if err \<noteq> 0 then
                   (if err = srtp_err_status_replay_fail lib then
                      (Returned (), plog warning [Str ''Incoming SRTP packet is a replay''] s4)
                    else
                      (Returned (), plog warning [Str ''SRTP unprotect error, status='', Num err] s4))
                 else
                   let s5 = plog verbose [Str ''Unprotected SRTP packet, size='', Num (int size')] s4
                   in (Returned (), emit (SrtpRecvCallback (resize size' buf')) s5)
            else
              (Returned (),
               plog warning [Str ''Unknown packet type, value='', Num (uint v),
                             Str '', size='', Num (int size0)] s1))"

subsection \<open>postHandshake (lines 147-232)\<close>

text \<open>Lines 192-196: the four pointers into the exported material (OpenSSL build).\<close>

definition openssl_pointers :: "bytes \<Rightarrow> ptr \<times> ptr \<times> ptr \<times> ptr" where
  "openssl_pointers material =
    (let clientKey = (material, 0);
         clientSalt = ptr_add clientKey SRTP_AES_128_KEY_LEN;
         serverKey = ptr_add (material, 0) SRTP_AES_ICM_128_KEY_LEN_WSALT;
         serverSalt = ptr_add serverKey SRTP_AES_128_KEY_LEN
     in (clientKey, clientSalt, serverKey, serverSalt))"

text \<open>Lines 199-201 and 203-205: a session key is the 16 bytes at the key pointer followed
  by the 14 bytes at the salt pointer.\<close>

definition sessionKey :: "ptr \<Rightarrow> ptr \<Rightarrow> bytes" where
  "sessionKey k salt = memcpy_from k SRTP_AES_128_KEY_LEN @ memcpy_from salt SRTP_SALT_LEN"

text \<open>Lines 207-213 and 219-225: the two policies.\<close>

definition inbound_policy :: "bool \<Rightarrow> bytes \<Rightarrow> bytes \<Rightarrow> srtp_policy_t" where
  "inbound_policy isClient clientSessionKey serverSessionKey =
    \<lparr>ssrc_type = ssrc_any_inbound, ssrc_value = 0,
     rtp = aes_cm_128_hmac_sha1_80, rtcp = aes_cm_128_hmac_sha1_80,
     key = (if isClient then serverSessionKey else clientSessionKey)\<rparr>"

definition outbound_policy :: "bool \<Rightarrow> bytes \<Rightarrow> bytes \<Rightarrow> srtp_policy_t" where
  "outbound_policy isClient clientSessionKey serverSessionKey =
    \<lparr>ssrc_type = ssrc_any_outbound, ssrc_value = 0,
     rtp = aes_cm_128_hmac_sha1_80, rtcp = aes_cm_128_hmac_sha1_80,
     key = (if isClient then clientSessionKey else serverSessionKey)\<rparr>"

text \<open>Lines 151-197: the keying material and the four pointers into it, or the exception
  thrown on the way.\<close>

definition materialLen :: nat where
  "materialLen = SRTP_AES_ICM_128_KEY_LEN_WSALT * 2"

definition extractor_label :: string where
  "extractor_label = ''EXTRACTOR-dtls_srtp''"

definition deriveMaterial ::
  "('s, 't) backend \<Rightarrow> ('s, 't) DtlsSrtpTransport
     \<Rightarrow> (ptr \<times> ptr \<times> ptr \<times> ptr) outcome \<times> ('s, 't) DtlsSrtpTransport" where
  "deriveMaterial lib s =
    (if USE_GNUTLS lib then
       let s1 = plog info [Str ''Deriving SRTP keying material (GnuTLS)''] s;
           s2 = emit (GnutlsSrtpGetKeys materialLen) s1;
           (ret, clientKeyDatum, clientSaltDatum, serverKeyDatum, serverSaltDatum) =
              gnutls_srtp_get_keys lib (mSsl s2) materialLen
       in case gnutls_check lib ret ''Failed to derive SRTP keys'' of
            Threw e \<Rightarrow> (Threw e, s2)
          | Returned _ \<Rightarrow>
             if datum_size clientKeyDatum \<noteq> SRTP_AES_128_KEY_LEN then
               (Threw (logic_error [Str ''Unexpected SRTP master key length: '',
                                    Num (int (datum_size clientKeyDatum))]), s2)
             else if datum_size clientSaltDatum \<noteq> SRTP_SALT_LEN then
               (Threw (logic_error [Str ''Unexpected SRTP salt length: '',
                                    Num (int (datum_size clientSaltDatum))]), s2)
             else if datum_size serverKeyDatum \<noteq> SRTP_AES_128_KEY_LEN then
               (Threw (logic_error [Str ''Unexpected SRTP master key length: '',
                                    Num (int (datum_size serverKeyDatum))]), s2)
             else if datum_size serverSaltDatum \<noteq> SRTP_SALT_LEN then
               (Threw (logic_error [Str ''Unexpected SRTP salt size: '',
                                    Num (int (datum_size serverSaltDatum))]), s2)
             else
               (Returned ((datum_data clientKeyDatum, 0), (datum_data clientSaltDatum, 0),
                          (datum_data serverKeyDatum, 0), (datum_data serverSaltDatum, 0)), s2)
     else
       let s1 = plog info [Str ''Deriving SRTP keying material (OpenSSL)''] s;
           s2 = emit (SslExportKeyingMaterial materialLen extractor_label None) s1;
           (ret, material) = SSL_export_keying_material lib (mSsl s2) materialLen extractor_label None
       in if ret \<le> 0 then
            (Threw (runtime_error [Str ''Failed to derive SRTP keys: '', LibError]), s2)
          else
            (Returned (openssl_pointers material), s2))"

definition postHandshake ::
  "('s, 't) backend \<Rightarrow> ('s, 't) DtlsSrtpTransport
     \<Rightarrow> unit outcome \<times> ('s, 't) DtlsSrtpTransport" where
  "postHandshake lib s =
    (if mInitDone s then (Returned (), s)
     else
       case deriveMaterial lib s of
         (Threw e, s2) \<Rightarrow> (Threw e, s2)
       | (Returned (clientKey, clientSalt, serverKey, serverSalt), s2) \<Rightarrow>
          let clientSessionKey = sessionKey clientKey clientSalt;
              serverSessionKey = sessionKey serverKey serverSalt;
              inbound = inbound_policy (mIsClient s2) clientSessionKey serverSessionKey;
              s3 = emit (SrtpAddStream SrtpIn inbound) s2;
              (err, sess') = srtp_add_stream lib (mSrtpIn s3) inbound;
              s4 = s3\<lparr>mSrtpIn := sess'\<rparr>
          in if err \<noteq> 0 then
               (Threw (runtime_error [Str ''SRTP add inbound stream failed, status='', Num err]), s4)
             else
               let outbound = outbound_policy (mIsClient s4) clientSessionKey serverSessionKey;
                   s5 = emit (SrtpAddStream SrtpOut outbound) s4;
                   (err, sess') = srtp_add_stream lib (mSrtpOut s5) outbound;
                   s6 = s5\<lparr>mSrtpOut := sess'\<rparr>
               in if err \<noteq> 0 then
                    (Threw (runtime_error [Str ''SRTP add outbound stream failed, status='', Num err]), s6)
                  else
                    (Returned (), s6\<lparr>mInitDone := True\<rparr>))"

subsection \<open>The layout of the exported material in the specification\<close>

text \<open>
  The specification's canonical layout, in its own words: initiator key at bytes
  \<open>[0,16)\<close>, responder key at \<open>[16,32)\<close>, initiator salt at \<open>[32,46)\<close>, responder
  salt at \<open>[46,60)\<close>; a session key is the key followed by the salt. The initiator is
  the DTLS client. These definitions are the specification's side of the comparison
  with \<open>openssl_pointers\<close> and \<open>sessionKey\<close>; the code does not use them.
\<close>

definition spec_initiator_key :: "bytes \<Rightarrow> bytes" where
  "spec_initiator_key material = take 16 material"

definition spec_responder_key :: "bytes \<Rightarrow> bytes" where
  "spec_responder_key material = take 16 (drop 16 material)"

definition spec_initiator_salt :: "bytes \<Rightarrow> bytes" where
  "spec_initiator_salt material = take 14 (drop 32 material)"

definition spec_responder_salt :: "bytes \<Rightarrow> bytes" where
  "spec_responder_salt material = take 14 (drop 46 material)"

definition spec_initiatorSessionKey :: "bytes \<Rightarrow> bytes" where
  "spec_initiatorSessionKey material = spec_initiator_key material @ spec_initiator_salt material"

definition spec_responderSessionKey :: "bytes \<Rightarrow> bytes" where
  "spec_responderSessionKey material = spec_responder_key material @ spec_responder_salt material"

subsection \<open>Reading the trace\<close>

text \<open>The keys of the policies handed to \<^verbatim>\<open>srtp_add_stream\<close> for one of the two
  sessions, in call order.\<close>

fun stream_keys :: "srtp_handle \<Rightarrow> event list \<Rightarrow> bytes list" where
  "stream_keys h [] = []"
| "stream_keys h (SrtpAddStream h' p # evs) =
     (if h' = h then key p # stream_keys h evs else stream_keys h evs)"
| "stream_keys h (_ # evs) = stream_keys h evs"

subsection \<open>A small backend to run the model on\<close>

text \<open>
  A stand-in for libsrtp and the TLS library, small enough to compute with. An SRTP
  session is the list of sequence bytes seen (byte 1 of a packet); protecting appends the
  tag byte \<open>0xA5\<close>; unprotecting fails with status 7 (authentication) on a wrong tag and
  with status 9 (replay) on a sequence byte seen before. The TLS session is the keying
  material it exports; the GnuTLS variant cuts it into key, key, salt, salt and gives
  whatever follows byte 46 as the server salt.
\<close>

definition toy_protect :: "byte list \<Rightarrow> bytes \<Rightarrow> nat \<Rightarrow> int \<times> byte list \<times> bytes \<times> nat" where
  "toy_protect seen buf n =
    (if n < 2 then (2, seen, buf, n)
     else if buf ! 1 \<in> set seen then (9, seen, buf, n)
     else (0, buf ! 1 # seen, buf[n := 0xA5], n + 1))"

definition toy_unprotect :: "byte list \<Rightarrow> bytes \<Rightarrow> nat \<Rightarrow> int \<times> byte list \<times> bytes \<times> nat" where
  "toy_unprotect seen buf n =
    (if n < 3 \<or> buf ! (n - 1) \<noteq> 0xA5 then (7, seen, buf, n)
     else if buf ! 1 \<in> set seen then (9, seen, buf, n)
     else (0, buf ! 1 # seen, buf, n - 1))"

definition toy_add_stream :: "byte list \<Rightarrow> srtp_policy_t \<Rightarrow> int \<times> byte list" where
  "toy_add_stream seen p = (if length (key p) = 30 then (0, seen) else (2, seen))"

definition toy_export :: "bytes \<Rightarrow> nat \<Rightarrow> string \<Rightarrow> bytes option \<Rightarrow> int \<times> bytes" where
  "toy_export tls olen label ctx =
    (if length tls < olen then (0, replicate olen 0) else (1, take olen tls))"

definition toy_datum :: "bytes \<Rightarrow> gnutls_datum_t" where
  "toy_datum bs = \<lparr>datum_data = bs, datum_size = length bs\<rparr>"

definition toy_get_keys ::
  "bytes \<Rightarrow> nat \<Rightarrow> int \<times> gnutls_datum_t \<times> gnutls_datum_t \<times> gnutls_datum_t \<times> gnutls_datum_t" where
  "toy_get_keys tls len =
    (if length tls < len then (-50, toy_datum [], toy_datum [], toy_datum [], toy_datum [])
     else (0, toy_datum (take 16 tls), toy_datum (take 14 (drop 32 tls)),
              toy_datum (take 16 (drop 16 tls)), toy_datum (drop 46 tls)))"

definition toy_check :: "int \<Rightarrow> string \<Rightarrow> bool outcome" where
  "toy_check ret msg =
    (if ret < 0 then Threw (runtime_error [Str msg, Str '': '', LibError]) else Returned True)"

definition toy_backend :: "bool \<Rightarrow> (byte list, bytes) backend" where
  "toy_backend use_gnutls =
    \<lparr>USE_GNUTLS = use_gnutls, SRTP_MAX_TRAILER_LEN = 4, srtp_err_status_replay_fail = 9,
     srtp_protect = toy_protect, srtp_unprotect = toy_unprotect,
     srtp_add_stream = toy_add_stream, SSL_export_keying_material = toy_export,
     gnutls_srtp_get_keys = toy_get_keys, gnutls_check = toy_check\<rparr>"

definition toy_transport :: "bool \<Rightarrow> bool \<Rightarrow> bytes \<Rightarrow> (byte list, bytes) DtlsSrtpTransport" where
  "toy_transport ready isClient tls =
    \<lparr>mInitDone = ready, mIsClient = isClient, mSrtpIn = [], mSrtpOut = [], mSsl = tls, trace = []\<rparr>"

text \<open>A ready transport whose two sessions have seen the given sequence bytes.\<close>

definition toy_seen :: "byte list \<Rightarrow> (byte list, bytes) DtlsSrtpTransport" where
  "toy_seen seen =
    \<lparr>mInitDone = True, mIsClient = True, mSrtpIn = seen, mSrtpOut = seen, mSsl = [], trace = []\<rparr>"

text \<open>The bytes \<open>a, a + 1, ..., b - 1\<close>, and the bytes \<open>0, 1, ..., n - 1\<close>.\<close>

definition byte_range :: "nat \<Rightarrow> nat \<Rightarrow> bytes" where
  "byte_range a b = map of_nat [a..<b]"

definition counting_bytes :: "nat \<Rightarrow> bytes" where
  "counting_bytes n = byte_range 0 n"

section \<open>What each function does, branch by branch\<close>

subsection \<open>Buffers and traces\<close>

lemma length_resize: "length (resize n xs) = n"
  by (simp add: resize_def)

lemma resize_truncates: "n \<le> length xs \<Longrightarrow> resize n xs = take n xs"
  by (simp add: resize_def)

lemma resize_keeps_prefix: "take (length xs) (resize (length xs + k) xs) = xs"
  by (simp add: resize_def)

lemma replicate_4: "replicate 4 x = [x, x, x, x]"
  by (simp add: numeral_eq_Suc)

lemma new_events_append [simp]: "new_events s (s'\<lparr>trace := trace s @ evs\<rparr>) = evs"
  by (simp add: new_events_def)

lemma new_events_same [simp]: "new_events s s = []"
  by (simp add: new_events_def)

lemma byte_ranges_disjoint: "(v::byte) \<le> 63 \<Longrightarrow> \<not> 128 \<le> v"
  by (simp add: word_le_nat_alt)

lemma materialLen_60: "materialLen = 60"
  by (simp add: materialLen_def SRTP_AES_ICM_128_KEY_LEN_WSALT_def SRTP_SALT_LEN_def
      SRTP_AES_128_KEY_LEN_def)

subsection \<open>sendMedia\<close>

lemma sendMedia_None: "sendMedia lib None s = (Returned False, None, s)"
  by (simp add: sendMedia_def)

lemma sendMedia_not_ready_eq:
  "\<not> mInitDone s \<Longrightarrow> sendMedia lib (Some m) s =
     (Returned False, Some m,
      s\<lparr>trace := trace s @ [Plog warning [Str ''SRTP media sent before keys are derived'']]\<rparr>)"
  by (simp add: sendMedia_def plog_def emit_def)

lemma sendMedia_ready_eq:
  assumes "mInitDone s"
    and "srtp_protect lib (mSrtpOut s) (resize (length m + SRTP_MAX_TRAILER_LEN lib) m) (length m)
           = (err, sess', buf', n')"
  shows "sendMedia lib (Some m) s =
     (if err \<noteq> 0 then
        (Threw (runtime_error (if err = srtp_err_status_replay_fail lib
                  then [Str ''SRTP packet is a replay'']
                  else [Str ''SRTP protect error, status='', Num err])),
         Some buf',
         s\<lparr>mSrtpOut := sess',
           trace := trace s @
             [Plog verbose [Str ''Send size='', Num (int (length m))],
              SrtpProtect (resize (length m + SRTP_MAX_TRAILER_LEN lib) m) (length m)]\<rparr>)
      else
        (Returned True, Some (resize n' buf'),
         s\<lparr>mSrtpOut := sess',
           trace := trace s @
             [Plog verbose [Str ''Send size='', Num (int (length m))],
              SrtpProtect (resize (length m + SRTP_MAX_TRAILER_LEN lib) m) (length m),
              Plog verbose [Str ''Protected SRTP packet, size='', Num (int n')],
              Outgoing (resize n' buf')]\<rparr>))"
  using assms by (simp add: sendMedia_def plog_def emit_def Let_def)

subsection \<open>incoming\<close>

lemma incoming_not_ready_eq:
  "\<not> mInitDone s \<Longrightarrow> incoming lib p s = (Returned (), s\<lparr>trace := trace s @ [DtlsIncoming p]\<rparr>)"
  by (simp add: incoming_def emit_def)

lemma incoming_empty_eq:
  "mInitDone s \<Longrightarrow> incoming lib [] s = (Returned (), s)"
  by (simp add: incoming_def)

lemma incoming_dtls_eq:
  "mInitDone s \<Longrightarrow> p \<noteq> [] \<Longrightarrow> 128 \<le> hd p \<Longrightarrow> hd p \<le> 191 \<Longrightarrow>
   incoming lib p s =
     (Returned (),
      s\<lparr>trace := trace s @
          [Plog verbose [Str ''Demultiplexing packet with first byte, value='', Num (uint (hd p))],
           Plog verbose [Str ''Incoming DTLS packet, size='', Num (int (length p))],
           DtlsIncoming p]\<rparr>)"
  by (simp add: incoming_def emit_def plog_def Let_def)

lemma incoming_srtp_eq:
  assumes "mInitDone s" "p \<noteq> []" "20 \<le> hd p" "hd p \<le> 63"
    and "srtp_unprotect lib (mSrtpIn s) p (length p) = (err, sess', buf', n')"
  shows "incoming lib p s =
     (Returned (),
      s\<lparr>mSrtpIn := sess',
        trace := trace s @
          [Plog verbose [Str ''Demultiplexing packet with first byte, value='', Num (uint (hd p))],
           Plog verbose [Str ''Incoming SRTP packet, size='', Num (int (length p))],
           SrtpUnprotect p (length p)] @
          (if err \<noteq> 0 then
             [Plog warning (if err = srtp_err_status_replay_fail lib
                            then [Str ''Incoming SRTP packet is a replay'']
                            else [Str ''SRTP unprotect error, status='', Num err])]
           else
             [Plog verbose [Str ''Unprotected SRTP packet, size='', Num (int n')],
              SrtpRecvCallback (resize n' buf')])\<rparr>)"
  using assms byte_ranges_disjoint[of "hd p"]
  by (simp add: incoming_def emit_def plog_def Let_def)

lemma incoming_unknown_eq:
  assumes "mInitDone s" "p \<noteq> []"
    and "\<not> (128 \<le> hd p \<and> hd p \<le> 191)" "\<not> (20 \<le> hd p \<and> hd p \<le> 63)"
  shows "incoming lib p s =
     (Returned (),
      s\<lparr>trace := trace s @
          [Plog verbose [Str ''Demultiplexing packet with first byte, value='', Num (uint (hd p))],
           Plog warning [Str ''Unknown packet type, value='', Num (uint (hd p)),
                         Str '', size='', Num (int (length p))]]\<rparr>)"
proof -
  have a: "(128 \<le> hd p \<and> hd p \<le> 191) = False"
    and b: "(20 \<le> hd p \<and> hd p \<le> 63) = False"
    using assms by simp_all
  show ?thesis
    using assms(1,2) unfolding incoming_def Let_def a b
    by (simp add: emit_def plog_def)
qed

subsection \<open>postHandshake\<close>

lemma deriveMaterial_state:
  "snd (deriveMaterial lib s) =
     s\<lparr>trace := trace s @
        [Plog info [Str (if USE_GNUTLS lib then ''Deriving SRTP keying material (GnuTLS)''
                         else ''Deriving SRTP keying material (OpenSSL)'')],
         if USE_GNUTLS lib then GnutlsSrtpGetKeys materialLen
         else SslExportKeyingMaterial materialLen extractor_label None]\<rparr>"
  by (simp add: deriveMaterial_def plog_def emit_def Let_def split: prod.splits outcome.splits)

lemma deriveMaterial_openssl:
  assumes "\<not> USE_GNUTLS lib"
    and "SSL_export_keying_material lib (mSsl s) materialLen extractor_label None = (ret, material)"
  shows "fst (deriveMaterial lib s) =
     (if ret \<le> 0 then Threw (runtime_error [Str ''Failed to derive SRTP keys: '', LibError])
      else Returned (openssl_pointers material))"
  using assms by (simp add: deriveMaterial_def plog_def emit_def Let_def)

lemma deriveMaterial_gnutls:
  assumes "USE_GNUTLS lib"
    and "gnutls_srtp_get_keys lib (mSsl s) materialLen = (ret, ck, cs, sk, ss)"
  shows "fst (deriveMaterial lib s) =
     (case gnutls_check lib ret ''Failed to derive SRTP keys'' of
        Threw e \<Rightarrow> Threw e
      | Returned _ \<Rightarrow>
         if datum_size ck \<noteq> SRTP_AES_128_KEY_LEN then
           Threw (logic_error [Str ''Unexpected SRTP master key length: '', Num (int (datum_size ck))])
         else if datum_size cs \<noteq> SRTP_SALT_LEN then
           Threw (logic_error [Str ''Unexpected SRTP salt length: '', Num (int (datum_size cs))])
         else if datum_size sk \<noteq> SRTP_AES_128_KEY_LEN then
           Threw (logic_error [Str ''Unexpected SRTP master key length: '', Num (int (datum_size sk))])
         else if datum_size ss \<noteq> SRTP_SALT_LEN then
           Threw (logic_error [Str ''Unexpected SRTP salt size: '', Num (int (datum_size ss))])
         else Returned ((datum_data ck, 0), (datum_data cs, 0), (datum_data sk, 0), (datum_data ss, 0)))"
  using assms by (simp add: deriveMaterial_def plog_def emit_def Let_def split: outcome.splits)

lemma postHandshake_ready: "mInitDone s \<Longrightarrow> postHandshake lib s = (Returned (), s)"
  by (simp add: postHandshake_def)

lemma postHandshake_derive_throws:
  assumes "\<not> mInitDone s" and "fst (deriveMaterial lib s) = Threw e"
  shows "postHandshake lib s = (Threw e, snd (deriveMaterial lib s))"
  using assms by (cases "deriveMaterial lib s") (simp add: postHandshake_def)

lemma postHandshake_derived:
  assumes "\<not> mInitDone s" and "fst (deriveMaterial lib s) = Returned (cK, cS, sK, sS)"
    and "srtp_add_stream lib (mSrtpIn s)
           (inbound_policy (mIsClient s) (sessionKey cK cS) (sessionKey sK sS)) = (e1, sin')"
    and "srtp_add_stream lib (mSrtpOut s)
           (outbound_policy (mIsClient s) (sessionKey cK cS) (sessionKey sK sS)) = (e2, sout')"
  shows "postHandshake lib s =
    (if e1 \<noteq> 0 then
       (Threw (runtime_error [Str ''SRTP add inbound stream failed, status='', Num e1]),
        s\<lparr>mSrtpIn := sin',
          trace := trace (snd (deriveMaterial lib s)) @
            [SrtpAddStream SrtpIn (inbound_policy (mIsClient s) (sessionKey cK cS) (sessionKey sK sS))]\<rparr>)
     else if e2 \<noteq> 0 then
       (Threw (runtime_error [Str ''SRTP add outbound stream failed, status='', Num e2]),
        s\<lparr>mSrtpIn := sin', mSrtpOut := sout',
          trace := trace (snd (deriveMaterial lib s)) @
            [SrtpAddStream SrtpIn (inbound_policy (mIsClient s) (sessionKey cK cS) (sessionKey sK sS)),
             SrtpAddStream SrtpOut (outbound_policy (mIsClient s) (sessionKey cK cS) (sessionKey sK sS))]\<rparr>)
     else
       (Returned (),
        s\<lparr>mInitDone := True, mSrtpIn := sin', mSrtpOut := sout',
          trace := trace (snd (deriveMaterial lib s)) @
            [SrtpAddStream SrtpIn (inbound_policy (mIsClient s) (sessionKey cK cS) (sessionKey sK sS)),
             SrtpAddStream SrtpOut (outbound_policy (mIsClient s) (sessionKey cK cS) (sessionKey sK sS))]\<rparr>))"
proof -
  obtain r s2 where d: "deriveMaterial lib s = (r, s2)" by (cases "deriveMaterial lib s")
  have r: "r = Returned (cK, cS, sK, sS)" using assms(2) d by simp
  obtain t where s2: "s2 = s\<lparr>trace := t\<rparr>"
    using deriveMaterial_state[of lib s] d by simp
  show ?thesis
    using assms(1,3,4) by (simp add: postHandshake_def d r s2 Let_def emit_def)
qed

lemma postHandshake_returns:
  assumes "\<not> mInitDone s" and "postHandshake lib s = (Returned (), s')"
  shows "\<exists>cK cS sK sS sin' sout'.
     fst (deriveMaterial lib s) = Returned (cK, cS, sK, sS) \<and>
     srtp_add_stream lib (mSrtpIn s)
        (inbound_policy (mIsClient s) (sessionKey cK cS) (sessionKey sK sS)) = (0, sin') \<and>
     srtp_add_stream lib (mSrtpOut s)
        (outbound_policy (mIsClient s) (sessionKey cK cS) (sessionKey sK sS)) = (0, sout') \<and>
     s' = s\<lparr>mInitDone := True, mSrtpIn := sin', mSrtpOut := sout',
            trace := trace (snd (deriveMaterial lib s)) @
              [SrtpAddStream SrtpIn (inbound_policy (mIsClient s) (sessionKey cK cS) (sessionKey sK sS)),
               SrtpAddStream SrtpOut (outbound_policy (mIsClient s) (sessionKey cK cS) (sessionKey sK sS))]\<rparr>"
proof (cases "fst (deriveMaterial lib s)")
  case (Threw e)
  with assms postHandshake_derive_throws [of s lib e] show ?thesis by simp
next
  case (Returned ptrs)
  obtain cK cS sK sS where ptrs: "ptrs = (cK, cS, sK, sS)" by (cases ptrs)
  obtain e1 sin' where i: "srtp_add_stream lib (mSrtpIn s)
        (inbound_policy (mIsClient s) (sessionKey cK cS) (sessionKey sK sS)) = (e1, sin')"
    by (cases "srtp_add_stream lib (mSrtpIn s)
        (inbound_policy (mIsClient s) (sessionKey cK cS) (sessionKey sK sS))")
  obtain e2 sout' where out: "srtp_add_stream lib (mSrtpOut s)
        (outbound_policy (mIsClient s) (sessionKey cK cS) (sessionKey sK sS)) = (e2, sout')"
    by (cases "srtp_add_stream lib (mSrtpOut s)
        (outbound_policy (mIsClient s) (sessionKey cK cS) (sessionKey sK sS))")
  have d: "fst (deriveMaterial lib s) = Returned (cK, cS, sK, sS)"
    using Returned ptrs by simp
  note eq = postHandshake_derived [OF assms(1) d i out]
  have "e1 = 0" "e2 = 0"
    using assms(2) eq by (auto split: if_splits)
  with assms(2) eq d i out show ?thesis by auto
qed

lemma postHandshake_throws_not_ready:
  assumes "\<not> mInitDone s" and "fst (postHandshake lib s) = Threw e"
  shows "\<not> mInitDone (snd (postHandshake lib s))"
proof (cases "fst (deriveMaterial lib s)")
  case (Threw e')
  with assms(1) show ?thesis
    by (simp add: postHandshake_derive_throws deriveMaterial_state)
next
  case (Returned ptrs)
  obtain cK cS sK sS where ptrs: "ptrs = (cK, cS, sK, sS)" by (cases ptrs)
  obtain e1 sin' where i: "srtp_add_stream lib (mSrtpIn s)
        (inbound_policy (mIsClient s) (sessionKey cK cS) (sessionKey sK sS)) = (e1, sin')"
    by (cases "srtp_add_stream lib (mSrtpIn s)
        (inbound_policy (mIsClient s) (sessionKey cK cS) (sessionKey sK sS))")
  obtain e2 sout' where out: "srtp_add_stream lib (mSrtpOut s)
        (outbound_policy (mIsClient s) (sessionKey cK cS) (sessionKey sK sS)) = (e2, sout')"
    by (cases "srtp_add_stream lib (mSrtpOut s)
        (outbound_policy (mIsClient s) (sessionKey cK cS) (sessionKey sK sS))")
  have d: "fst (deriveMaterial lib s) = Returned (cK, cS, sK, sS)"
    using Returned ptrs by simp
  show ?thesis
    using assms postHandshake_derived [OF assms(1) d i out] by (auto split: if_splits)
qed

lemma postHandshake_derive_throws_summary:
  assumes "\<not> mInitDone s" and "fst (deriveMaterial lib s) = Threw e"
  shows "fst (postHandshake lib s) = Threw e \<and>
         \<not> mInitDone (snd (postHandshake lib s)) \<and>
         filter is_add_stream (new_events s (snd (postHandshake lib s))) = []"
  using assms
  by (simp add: postHandshake_derive_throws deriveMaterial_state)

lemma postHandshake_exports_once:
  assumes "\<not> mInitDone s"
  shows "filter is_export (new_events s (snd (postHandshake lib s))) =
        [if USE_GNUTLS lib then GnutlsSrtpGetKeys 60
         else SslExportKeyingMaterial 60 ''EXTRACTOR-dtls_srtp'' None]"
proof (cases "fst (deriveMaterial lib s)")
  case (Threw e)
  with assms show ?thesis
    by (simp add: postHandshake_derive_throws deriveMaterial_state materialLen_60
        extractor_label_def)
next
  case (Returned ptrs)
  obtain cK cS sK sS where ptrs: "ptrs = (cK, cS, sK, sS)" by (cases ptrs)
  obtain e1 sin' where i: "srtp_add_stream lib (mSrtpIn s)
        (inbound_policy (mIsClient s) (sessionKey cK cS) (sessionKey sK sS)) = (e1, sin')"
    by (cases "srtp_add_stream lib (mSrtpIn s)
        (inbound_policy (mIsClient s) (sessionKey cK cS) (sessionKey sK sS))")
  obtain e2 sout' where out: "srtp_add_stream lib (mSrtpOut s)
        (outbound_policy (mIsClient s) (sessionKey cK cS) (sessionKey sK sS)) = (e2, sout')"
    by (cases "srtp_add_stream lib (mSrtpOut s)
        (outbound_policy (mIsClient s) (sessionKey cK cS) (sessionKey sK sS))")
  have d: "fst (deriveMaterial lib s) = Returned (cK, cS, sK, sS)"
    using Returned ptrs by simp
  show ?thesis
    by (simp add: postHandshake_derived [OF assms d i out] deriveMaterial_state materialLen_60
        extractor_label_def new_events_def)
qed

lemma postHandshake_stream_keys:
  assumes "\<not> mInitDone s"
    and "fst (deriveMaterial lib s) = Returned (clientKey, clientSalt, serverKey, serverSalt)"
    and "postHandshake lib s = (Returned (), s')"
  shows "stream_keys SrtpOut (new_events s s') =
           [if mIsClient s then sessionKey clientKey clientSalt else sessionKey serverKey serverSalt] \<and>
         stream_keys SrtpIn (new_events s s') =
           [if mIsClient s then sessionKey serverKey serverSalt else sessionKey clientKey clientSalt]"
proof -
  from postHandshake_returns [OF assms(1,3)] assms(2)
  obtain sin' sout' where
    "s' = s\<lparr>mInitDone := True, mSrtpIn := sin', mSrtpOut := sout',
          trace := trace (snd (deriveMaterial lib s)) @
            [SrtpAddStream SrtpIn (inbound_policy (mIsClient s)
                (sessionKey clientKey clientSalt) (sessionKey serverKey serverSalt)),
             SrtpAddStream SrtpOut (outbound_policy (mIsClient s)
                (sessionKey clientKey clientSalt) (sessionKey serverKey serverSalt))]\<rparr>"
    by auto
  then show ?thesis
    by (simp add: deriveMaterial_state new_events_def inbound_policy_def outbound_policy_def)
qed

subsection \<open>The session keys of the OpenSSL build\<close>

text \<open>Whatever the material, the client session key is its first 30 bytes and the
  server session key the 30 bytes after them.\<close>

lemma take_key_salt: "take 16 (m::bytes) @ take 14 (drop 16 m) = take 30 m"
  using take_add [where i = 16 and j = 14 and xs = m] by simp

lemma openssl_client_session_key:
  "openssl_pointers m = (cK, cS, sK, sS) \<Longrightarrow> sessionKey cK cS = take 30 m"
  using take_key_salt [of m]
  by (auto simp: openssl_pointers_def sessionKey_def memcpy_from_def ptr_add_def Let_def
      SRTP_AES_128_KEY_LEN_def SRTP_SALT_LEN_def)

lemma openssl_server_session_key:
  "openssl_pointers m = (cK, cS, sK, sS) \<Longrightarrow> sessionKey sK sS = take 30 (drop 30 m)"
  using take_key_salt [of "drop 30 m"]
  by (auto simp: openssl_pointers_def sessionKey_def memcpy_from_def ptr_add_def Let_def
      SRTP_AES_128_KEY_LEN_def SRTP_SALT_LEN_def SRTP_AES_ICM_128_KEY_LEN_WSALT_def add.commute)

subsection \<open>Running the small backend\<close>

lemma length_counting_bytes [simp]: "length (counting_bytes n) = n"
  by (simp add: counting_bytes_def byte_range_def)

lemma toy_export_60:
  "SSL_export_keying_material (toy_backend False) (mSsl (toy_transport ready c (counting_bytes 60)))
      materialLen extractor_label None = (1, counting_bytes 60)"
  by (simp add: toy_backend_def toy_transport_def toy_export_def materialLen_60)

lemma toy_deriveMaterial_60:
  "fst (deriveMaterial (toy_backend False) (toy_transport ready c (counting_bytes 60))) =
     Returned (openssl_pointers (counting_bytes 60))"
proof -
  have g: "\<not> USE_GNUTLS (toy_backend False)" by (simp add: toy_backend_def)
  show ?thesis using deriveMaterial_openssl [OF g toy_export_60] by simp
qed

lemma toy_postHandshake_60:
  "postHandshake (toy_backend False) (toy_transport False c (counting_bytes 60)) =
     (Returned (), snd (postHandshake (toy_backend False) (toy_transport False c (counting_bytes 60))))"
proof -
  let ?s = "toy_transport False c (counting_bytes 60)"
  let ?L = "toy_backend False"
  obtain cK cS sK sS where p: "openssl_pointers (counting_bytes 60) = (cK, cS, sK, sS)"
    by (cases "openssl_pointers (counting_bytes 60)")
  have n: "\<not> mInitDone ?s" by (simp add: toy_transport_def)
  have d: "fst (deriveMaterial ?L ?s) = Returned (cK, cS, sK, sS)"
    using toy_deriveMaterial_60 [of False c] p by simp
  have k: "length (sessionKey cK cS) = 30" "length (sessionKey sK sS) = 30"
    by (simp_all add: openssl_client_session_key [OF p] openssl_server_session_key [OF p])
  have i: "srtp_add_stream ?L (mSrtpIn ?s)
        (inbound_policy (mIsClient ?s) (sessionKey cK cS) (sessionKey sK sS)) = (0, [])"
    using k by (simp add: toy_backend_def toy_transport_def toy_add_stream_def inbound_policy_def)
  have out: "srtp_add_stream ?L (mSrtpOut ?s)
        (outbound_policy (mIsClient ?s) (sessionKey cK cS) (sessionKey sK sS)) = (0, [])"
    using k by (simp add: toy_backend_def toy_transport_def toy_add_stream_def outbound_policy_def)
  show ?thesis
    by (simp add: postHandshake_derived [OF n d i out])
qed

section \<open>The claims\<close>

text \<open>
  C1 (the code departs from the claim). The claim: the initiator (client) session key is
  bytes \<open>[0,16)\<close> followed by bytes \<open>[32,46)\<close> of the exported material, the responder
  (server) session key bytes \<open>[16,32)\<close> followed by bytes \<open>[46,60)\<close>. The comment in the
  code says the same ("client write master key, server write master key, client write
  master salt, server write master salt, in that order"). The pointers of the OpenSSL
  build are set as if the order were key, salt, key, salt: on the material
  \<open>0, 1, ..., 59\<close> the client session key is bytes \<open>0..29\<close> and the server session key
  bytes \<open>30..59\<close>, and these are the keys \<^verbatim>\<open>postHandshake\<close> hands to libsrtp (here
  for a client: outbound \<open>0..29\<close>, inbound \<open>30..59\<close>).
\<close>

theorem openssl_slicing_at_counting_bytes:
  "(case openssl_pointers (counting_bytes 60) of
      (clientKey, clientSalt, serverKey, serverSalt) \<Rightarrow>
        sessionKey clientKey clientSalt = byte_range 0 30 \<and>
        sessionKey serverKey serverSalt = byte_range 30 60 \<and>
        sessionKey clientKey clientSalt \<noteq> spec_initiatorSessionKey (counting_bytes 60) \<and>
        sessionKey serverKey serverSalt \<noteq> spec_responderSessionKey (counting_bytes 60)) \<and>
   spec_initiatorSessionKey (counting_bytes 60) = byte_range 0 16 @ byte_range 32 46 \<and>
   spec_responderSessionKey (counting_bytes 60) = byte_range 16 32 @ byte_range 46 60 \<and>
   stream_keys SrtpOut (new_events (toy_transport False True (counting_bytes 60))
      (snd (postHandshake (toy_backend False) (toy_transport False True (counting_bytes 60))))) =
     [byte_range 0 30] \<and>
   stream_keys SrtpIn (new_events (toy_transport False True (counting_bytes 60))
      (snd (postHandshake (toy_backend False) (toy_transport False True (counting_bytes 60))))) =
     [byte_range 30 60]"
proof -
  obtain cK cS sK sS where p: "openssl_pointers (counting_bytes 60) = (cK, cS, sK, sS)"
    by (cases "openssl_pointers (counting_bytes 60)")
  have c: "sessionKey cK cS = byte_range 0 30"
    unfolding openssl_client_session_key [OF p] by code_simp
  have s: "sessionKey sK sS = byte_range 30 60"
    unfolding openssl_server_session_key [OF p] by code_simp
  have i: "spec_initiatorSessionKey (counting_bytes 60) = byte_range 0 16 @ byte_range 32 46"
    by code_simp
  have r: "spec_responderSessionKey (counting_bytes 60) = byte_range 16 32 @ byte_range 46 60"
    by code_simp
  have ci: "byte_range 0 30 \<noteq> byte_range 0 16 @ byte_range 32 46"
    by code_simp
  have sr: "byte_range 30 60 \<noteq> byte_range 16 32 @ byte_range 46 60"
    by code_simp
  have n: "\<not> mInitDone (toy_transport False True (counting_bytes 60))"
    by (simp add: toy_transport_def)
  have m: "mIsClient (toy_transport False True (counting_bytes 60))"
    by (simp add: toy_transport_def)
  have d: "fst (deriveMaterial (toy_backend False) (toy_transport False True (counting_bytes 60))) =
      Returned (cK, cS, sK, sS)"
    using toy_deriveMaterial_60 [of False True] p by simp
  have k: "stream_keys SrtpOut (new_events (toy_transport False True (counting_bytes 60))
      (snd (postHandshake (toy_backend False) (toy_transport False True (counting_bytes 60))))) =
     [sessionKey cK cS] \<and>
     stream_keys SrtpIn (new_events (toy_transport False True (counting_bytes 60))
      (snd (postHandshake (toy_backend False) (toy_transport False True (counting_bytes 60))))) =
     [sessionKey sK sS]"
    using postHandshake_stream_keys [OF n d toy_postHandshake_60] m by simp
  show ?thesis
    unfolding p i r using c s k ci sr by simp
qed

text \<open>
  C2. \<^verbatim>\<open>incoming\<close>, for every datagram \<open>p\<close> and every backend, returns without
  throwing, and:
  \<^item> before the keys are derived, hands \<open>p\<close> to the DTLS transport whatever its content
    (an empty datagram too) and calls nothing else;
  \<^item> once they are derived, with a first byte in \<open>[20,63]\<close>, calls
    \<^verbatim>\<open>srtp_unprotect\<close> on \<open>p\<close> (the media path: the receive callback follows exactly
    when the status is ok) and does not hand \<open>p\<close> to the DTLS transport;
  \<^item> once they are derived, with a first byte in \<open>[128,191]\<close>, hands \<open>p\<close> to the DTLS
    transport and calls nothing else;
  \<^item> once they are derived, for an empty datagram or any other first byte, calls nothing
    (at most log lines are written) and changes no field of the transport.
\<close>

theorem incoming_demultiplexes:
  "(\<not> mInitDone s \<longrightarrow>
      fst (incoming lib p s) = Returned () \<and>
      calls (new_events s (snd (incoming lib p s))) = [DtlsIncoming p]) \<and>
   (mInitDone s \<and> p \<noteq> [] \<and> 20 \<le> hd p \<and> hd p \<le> 63 \<longrightarrow>
      fst (incoming lib p s) = Returned () \<and>
      calls (new_events s (snd (incoming lib p s))) =
        SrtpUnprotect p (length p) #
          (case srtp_unprotect lib (mSrtpIn s) p (length p) of
             (err, sess', buf', n') \<Rightarrow>
               if err = srtp_err_status_ok then [SrtpRecvCallback (resize n' buf')] else [])) \<and>
   (mInitDone s \<and> p \<noteq> [] \<and> 128 \<le> hd p \<and> hd p \<le> 191 \<longrightarrow>
      fst (incoming lib p s) = Returned () \<and>
      calls (new_events s (snd (incoming lib p s))) = [DtlsIncoming p]) \<and>
   (mInitDone s \<and> (p = [] \<or> \<not> (20 \<le> hd p \<and> hd p \<le> 63) \<and> \<not> (128 \<le> hd p \<and> hd p \<le> 191)) \<longrightarrow>
      fst (incoming lib p s) = Returned () \<and>
      calls (new_events s (snd (incoming lib p s))) = [] \<and>
      (snd (incoming lib p s))\<lparr>trace := trace s\<rparr> = s)"
proof (intro conjI impI)
  assume "\<not> mInitDone s"
  then show "fst (incoming lib p s) = Returned ()"
    and "calls (new_events s (snd (incoming lib p s))) = [DtlsIncoming p]"
    by (simp_all add: incoming_not_ready_eq calls_def)
next
  assume a: "mInitDone s \<and> p \<noteq> [] \<and> 20 \<le> hd p \<and> hd p \<le> 63"
  obtain err sess' buf' n' where u: "srtp_unprotect lib (mSrtpIn s) p (length p) = (err, sess', buf', n')"
    by (cases "srtp_unprotect lib (mSrtpIn s) p (length p)")
  from a u show "fst (incoming lib p s) = Returned ()"
    by (simp add: incoming_srtp_eq)
  from a u show "calls (new_events s (snd (incoming lib p s))) =
        SrtpUnprotect p (length p) #
          (case srtp_unprotect lib (mSrtpIn s) p (length p) of
             (err, sess', buf', n') \<Rightarrow>
               if err = srtp_err_status_ok then [SrtpRecvCallback (resize n' buf')] else [])"
    by (simp add: incoming_srtp_eq calls_def srtp_err_status_ok_def)
next
  assume a: "mInitDone s \<and> p \<noteq> [] \<and> 128 \<le> hd p \<and> hd p \<le> 191"
  then show "fst (incoming lib p s) = Returned ()"
    and "calls (new_events s (snd (incoming lib p s))) = [DtlsIncoming p]"
    by (simp_all add: incoming_dtls_eq calls_def)
next
  assume a: "mInitDone s \<and> (p = [] \<or> \<not> (20 \<le> hd p \<and> hd p \<le> 63) \<and> \<not> (128 \<le> hd p \<and> hd p \<le> 191))"
  have "incoming lib p s = (Returned (), s) \<or>
        incoming lib p s = (Returned (),
          s\<lparr>trace := trace s @
          [Plog verbose [Str ''Demultiplexing packet with first byte, value='', Num (uint (hd p))],
           Plog warning [Str ''Unknown packet type, value='', Num (uint (hd p)),
                         Str '', size='', Num (int (length p))]]\<rparr>)"
  proof (cases "p = []")
    case True
    with a show ?thesis by (simp add: incoming_empty_eq)
  next
    case False
    with a have "\<not> (128 \<le> hd p \<and> hd p \<le> 191)" "\<not> (20 \<le> hd p \<and> hd p \<le> 63)" by blast+
    with a False show ?thesis using incoming_unknown_eq[of s p lib] by blast
  qed
  then show "fst (incoming lib p s) = Returned ()"
    and "calls (new_events s (snd (incoming lib p s))) = []"
    and "(snd (incoming lib p s))\<lparr>trace := trace s\<rparr> = s"
    by (auto simp: calls_def)
qed


theorem incoming_demultiplexes_witness:
  "calls (new_events (toy_transport False True [])
     (snd (incoming (toy_backend False) [0x20, 1, 2, 0xA5] (toy_transport False True [])))) =
     [DtlsIncoming [0x20, 1, 2, 0xA5]] \<and>
   calls (new_events (toy_transport False True [])
     (snd (incoming (toy_backend False) [] (toy_transport False True [])))) =
     [DtlsIncoming []] \<and>
   calls (new_events (toy_transport True True [])
     (snd (incoming (toy_backend False) [0x20, 1, 2, 0xA5] (toy_transport True True [])))) =
     [SrtpUnprotect [0x20, 1, 2, 0xA5] 4, SrtpRecvCallback [0x20, 1, 2]] \<and>
   calls (new_events (toy_transport True True [])
     (snd (incoming (toy_backend False) [0x80, 1, 2, 0xA5] (toy_transport True True [])))) =
     [DtlsIncoming [0x80, 1, 2, 0xA5]] \<and>
   calls (new_events (toy_transport True True [])
     (snd (incoming (toy_backend False) [0x40, 1, 2, 0xA5] (toy_transport True True [])))) = [] \<and>
   calls (new_events (toy_transport True True [])
     (snd (incoming (toy_backend False) [] (toy_transport True True [])))) = []"
proof -
  have n: "\<not> mInitDone (toy_transport False True [])" and r: "mInitDone (toy_transport True True [])"
    by (simp_all add: toy_transport_def)
  have u: "srtp_unprotect (toy_backend False) (mSrtpIn (toy_transport True True []))
             [0x20, 1, 2, 0xA5] (length [0x20, 1, 2, 0xA5 :: byte]) = (0, [1], [0x20, 1, 2, 0xA5], 3)"
    by (simp add: toy_backend_def toy_transport_def toy_unprotect_def)
  have a: "calls (new_events (toy_transport False True [])
     (snd (incoming (toy_backend False) [0x20, 1, 2, 0xA5] (toy_transport False True [])))) =
     [DtlsIncoming [0x20, 1, 2, 0xA5]]"
    using n incoming_demultiplexes [where s = "toy_transport False True []" and lib = "toy_backend False" and p = "[0x20, 1, 2, 0xA5]"]
    by blast
  have b: "calls (new_events (toy_transport False True [])
     (snd (incoming (toy_backend False) [] (toy_transport False True [])))) =
     [DtlsIncoming []]"
    using n incoming_demultiplexes [where s = "toy_transport False True []" and lib = "toy_backend False" and p = "[]"]
    by blast
  have c: "calls (new_events (toy_transport True True [])
     (snd (incoming (toy_backend False) [0x20, 1, 2, 0xA5] (toy_transport True True [])))) =
     [SrtpUnprotect [0x20, 1, 2, 0xA5] 4, SrtpRecvCallback [0x20, 1, 2]]"
    using r u incoming_demultiplexes [where s = "toy_transport True True []" and lib = "toy_backend False" and p = "[0x20, 1, 2, 0xA5]"]
    by (simp add: srtp_err_status_ok_def resize_def)
  have d: "calls (new_events (toy_transport True True [])
     (snd (incoming (toy_backend False) [0x80, 1, 2, 0xA5] (toy_transport True True [])))) =
     [DtlsIncoming [0x80, 1, 2, 0xA5]]"
    using r incoming_demultiplexes [where s = "toy_transport True True []" and lib = "toy_backend False" and p = "[0x80, 1, 2, 0xA5]"]
    by simp
  have e: "calls (new_events (toy_transport True True [])
     (snd (incoming (toy_backend False) [0x40, 1, 2, 0xA5] (toy_transport True True [])))) = []"
    using r incoming_demultiplexes [where s = "toy_transport True True []" and lib = "toy_backend False" and p = "[0x40, 1, 2, 0xA5]"]
    by simp
  have f: "calls (new_events (toy_transport True True [])
     (snd (incoming (toy_backend False) [] (toy_transport True True [])))) = []"
    using r incoming_demultiplexes [where s = "toy_transport True True []" and lib = "toy_backend False" and p = "[]"]
    by simp
  show ?thesis by (intro conjI a b c d e f)
qed

text \<open>
  C3. Take two transports that have not derived their keys, a client \<open>a\<close> and a server
  \<open>b\<close>, whose key derivation yields the same key and salt pointers (the same exported
  material), and let \<^verbatim>\<open>postHandshake\<close> return on both. Then each hands exactly one
  policy to each of its two libsrtp sessions; the client's outbound key is the client
  session key and its inbound key the server session key; the server's outbound key is
  the server session key and its inbound key the client session key. So the outbound key
  of either side is the inbound key of the other.
\<close>

theorem postHandshake_keys_by_role:
  assumes "\<not> mInitDone a" and "\<not> mInitDone b" and "mIsClient a" and "\<not> mIsClient b"
    and "fst (deriveMaterial la a) = Returned (clientKey, clientSalt, serverKey, serverSalt)"
    and "fst (deriveMaterial lb b) = Returned (clientKey, clientSalt, serverKey, serverSalt)"
    and "postHandshake la a = (Returned (), a')"
    and "postHandshake lb b = (Returned (), b')"
  shows "stream_keys SrtpOut (new_events a a') = [sessionKey clientKey clientSalt] \<and>
         stream_keys SrtpIn (new_events a a') = [sessionKey serverKey serverSalt] \<and>
         stream_keys SrtpOut (new_events b b') = [sessionKey serverKey serverSalt] \<and>
         stream_keys SrtpIn (new_events b b') = [sessionKey clientKey clientSalt] \<and>
         stream_keys SrtpOut (new_events a a') = stream_keys SrtpIn (new_events b b') \<and>
         stream_keys SrtpIn (new_events a a') = stream_keys SrtpOut (new_events b b')"
  using postHandshake_stream_keys [OF assms(1,5,7)] postHandshake_stream_keys [OF assms(2,6,8)]
    assms(3,4)
  by simp

theorem postHandshake_keys_by_role_witness:
  "stream_keys SrtpOut (new_events (toy_transport False True (counting_bytes 60))
      (snd (postHandshake (toy_backend False) (toy_transport False True (counting_bytes 60))))) =
     [take 30 (counting_bytes 60)] \<and>
   stream_keys SrtpIn (new_events (toy_transport False False (counting_bytes 60))
      (snd (postHandshake (toy_backend False) (toy_transport False False (counting_bytes 60))))) =
     [take 30 (counting_bytes 60)] \<and>
   stream_keys SrtpOut (new_events (toy_transport False False (counting_bytes 60))
      (snd (postHandshake (toy_backend False) (toy_transport False False (counting_bytes 60))))) =
     [take 30 (drop 30 (counting_bytes 60))] \<and>
   stream_keys SrtpIn (new_events (toy_transport False True (counting_bytes 60))
      (snd (postHandshake (toy_backend False) (toy_transport False True (counting_bytes 60))))) =
     [take 30 (drop 30 (counting_bytes 60))]"
proof -
  obtain cK cS sK sS where p: "openssl_pointers (counting_bytes 60) = (cK, cS, sK, sS)"
    by (cases "openssl_pointers (counting_bytes 60)")
  have n: "\<not> mInitDone (toy_transport False c m)" for c m
    by (simp add: toy_transport_def)
  have r: "mIsClient (toy_transport False True m)" "\<not> mIsClient (toy_transport False False m)" for m
    by (simp_all add: toy_transport_def)
  have d: "fst (deriveMaterial (toy_backend False) (toy_transport False c (counting_bytes 60))) =
      Returned (cK, cS, sK, sS)" for c
    using toy_deriveMaterial_60 [of False c] p by simp
  from postHandshake_keys_by_role [OF n n r d d toy_postHandshake_60 toy_postHandshake_60]
  show ?thesis
    by (simp add: openssl_client_session_key [OF p] openssl_server_session_key [OF p])
qed

text \<open>
  C4. \<^verbatim>\<open>sendMedia\<close> called before the keys are derived (\<open>mInitDone\<close> false) returns
  \<open>false\<close> and does not throw, for every message and every backend. The message is left
  as it was, every field of the transport is left as it was, and the only thing appended
  to the trace is a log line (the warning, for a non-null message): nothing is sent to
  the lower transport and libsrtp is not called.
\<close>

theorem sendMedia_before_keys:
  assumes "\<not> mInitDone s" and "sendMedia lib message s = (r, m', s')"
  shows "r = Returned False \<and> m' = message \<and> s'\<lparr>trace := trace s\<rparr> = s \<and>
         take (length (trace s)) (trace s') = trace s \<and>
         calls (new_events s s') = []"
proof (cases message)
  case None
  with assms(2) show ?thesis by (simp add: sendMedia_None calls_def)
next
  case (Some m)
  with assms show ?thesis by (auto simp: sendMedia_not_ready_eq calls_def)
qed

theorem sendMedia_before_keys_witness:
  "\<not> mInitDone (toy_transport False True []) \<and>
   sendMedia (toy_backend False) (Some [0x80, 1, 2]) (toy_transport False True []) =
     (Returned False, Some [0x80, 1, 2],
      (toy_transport False True [])
        \<lparr>trace := [Plog warning [Str ''SRTP media sent before keys are derived'']]\<rparr>) \<and>
   calls (new_events (toy_transport False True [])
      ((toy_transport False True [])
        \<lparr>trace := [Plog warning [Str ''SRTP media sent before keys are derived'']]\<rparr>)) = []"
proof -
  have h: "\<not> mInitDone (toy_transport False True [])" by (simp add: toy_transport_def)
  have e: "sendMedia (toy_backend False) (Some [0x80, 1, 2]) (toy_transport False True []) =
     (Returned False, Some [0x80, 1, 2],
      (toy_transport False True [])
        \<lparr>trace := [Plog warning [Str ''SRTP media sent before keys are derived'']]\<rparr>)"
    by (simp add: sendMedia_def toy_transport_def plog_def emit_def)
  show ?thesis using h e sendMedia_before_keys [OF h e] by simp
qed

text \<open>
  C5. \<^verbatim>\<open>sendMedia\<close> called with a message \<open>m\<close> once the keys are derived, when
  \<^verbatim>\<open>srtp_protect\<close> reports success: the message is first grown by
  \<open>SRTP_MAX_TRAILER_LEN\<close> bytes (its content kept), \<^verbatim>\<open>srtp_protect\<close> is called on that
  buffer with the original length, the buffer it leaves is resized to the length it
  returns (a truncation whenever that length is within the buffer), that packet is
  handed to the lower transport by \<^verbatim>\<open>outgoing\<close>, and the result is \<open>true\<close>.
\<close>

theorem sendMedia_ready_protects_and_forwards:
  assumes "mInitDone s"
    and "srtp_protect lib (mSrtpOut s) (resize (length m + SRTP_MAX_TRAILER_LEN lib) m) (length m)
           = (err, sess', buf', n')"
    and "err = srtp_err_status_ok"
    and "sendMedia lib (Some m) s = (r, m', s')"
  shows "r = Returned True \<and>
         length (resize (length m + SRTP_MAX_TRAILER_LEN lib) m) = length m + SRTP_MAX_TRAILER_LEN lib \<and>
         take (length m) (resize (length m + SRTP_MAX_TRAILER_LEN lib) m) = m \<and>
         calls (new_events s s') =
           [SrtpProtect (resize (length m + SRTP_MAX_TRAILER_LEN lib) m) (length m),
            Outgoing (resize n' buf')] \<and>
         length (resize n' buf') = n' \<and>
         (n' \<le> length buf' \<longrightarrow> resize n' buf' = take n' buf') \<and>
         m' = Some (resize n' buf') \<and>
         mSrtpOut s' = sess'"
  using assms
  by (auto simp: sendMedia_ready_eq srtp_err_status_ok_def calls_def length_resize
      resize_truncates resize_keeps_prefix)

theorem sendMedia_ready_protects_and_forwards_witness:
  "mInitDone (toy_transport True True []) \<and>
   srtp_protect (toy_backend False) (mSrtpOut (toy_transport True True []))
      (resize (length [0x80, 1, 2 :: byte] + SRTP_MAX_TRAILER_LEN (toy_backend False)) [0x80, 1, 2])
      (length [0x80, 1, 2 :: byte]) = (0, [1], [0x80, 1, 2, 0xA5, 0, 0, 0], 4) \<and>
   sendMedia (toy_backend False) (Some [0x80, 1, 2]) (toy_transport True True []) =
     (Returned True, Some [0x80, 1, 2, 0xA5],
      (toy_transport True True [])
        \<lparr>mSrtpOut := [1],
         trace := [Plog verbose [Str ''Send size='', Num 3],
                   SrtpProtect [0x80, 1, 2, 0, 0, 0, 0] 3,
                   Plog verbose [Str ''Protected SRTP packet, size='', Num 4],
                   Outgoing [0x80, 1, 2, 0xA5]]\<rparr>) \<and>
   calls (new_events (toy_transport True True [])
      ((toy_transport True True [])
        \<lparr>mSrtpOut := [1],
         trace := [Plog verbose [Str ''Send size='', Num 3],
                   SrtpProtect [0x80, 1, 2, 0, 0, 0, 0] 3,
                   Plog verbose [Str ''Protected SRTP packet, size='', Num 4],
                   Outgoing [0x80, 1, 2, 0xA5]]\<rparr>)) =
     [SrtpProtect [0x80, 1, 2, 0, 0, 0, 0] 3, Outgoing [0x80, 1, 2, 0xA5]]"
proof -
  have h: "mInitDone (toy_transport True True [])" by (simp add: toy_transport_def)
  have p: "srtp_protect (toy_backend False) (mSrtpOut (toy_transport True True []))
      (resize (length [0x80, 1, 2 :: byte] + SRTP_MAX_TRAILER_LEN (toy_backend False)) [0x80, 1, 2])
      (length [0x80, 1, 2 :: byte]) = (0, [1], [0x80, 1, 2, 0xA5, 0, 0, 0], 4)"
    by (simp add: toy_backend_def toy_transport_def toy_protect_def resize_def numeral_eq_Suc)
  have z: "(0::int) = srtp_err_status_ok" by (simp add: srtp_err_status_ok_def)
  have e: "sendMedia (toy_backend False) (Some [0x80, 1, 2]) (toy_transport True True []) =
     (Returned True, Some [0x80, 1, 2, 0xA5],
      (toy_transport True True [])
        \<lparr>mSrtpOut := [1],
         trace := [Plog verbose [Str ''Send size='', Num 3],
                   SrtpProtect [0x80, 1, 2, 0, 0, 0, 0] 3,
                   Plog verbose [Str ''Protected SRTP packet, size='', Num 4],
                   Outgoing [0x80, 1, 2, 0xA5]]\<rparr>)"
    apply (simp add: sendMedia_def toy_transport_def toy_backend_def plog_def emit_def Let_def)
    apply (simp add: resize_def toy_protect_def numeral_eq_Suc plog_def emit_def Let_def)
    done
  note main = sendMedia_ready_protects_and_forwards [OF h p z e]
  have c: "calls (new_events (toy_transport True True [])
      ((toy_transport True True [])
        \<lparr>mSrtpOut := [1],
         trace := [Plog verbose [Str ''Send size='', Num 3],
                   SrtpProtect [0x80, 1, 2, 0, 0, 0, 0] 3,
                   Plog verbose [Str ''Protected SRTP packet, size='', Num 4],
                   Outgoing [0x80, 1, 2, 0xA5]]\<rparr>)) =
     [SrtpProtect [0x80, 1, 2, 0, 0, 0, 0] 3, Outgoing [0x80, 1, 2, 0xA5]]"
    using main by (simp add: resize_def toy_backend_def replicate_4)
  show ?thesis by (intro conjI h p e c)
qed

text \<open>
  C6. \<^verbatim>\<open>incoming\<close> on a datagram of the media range, once the keys are derived, when
  \<^verbatim>\<open>srtp_unprotect\<close> reports any failure (replay or other): the call returns without
  throwing; after \<^verbatim>\<open>srtp_unprotect\<close> nothing is called (no receive callback, nothing
  handed to the DTLS transport); exactly one warning is logged; the transport is left
  as it was apart from the inbound session, which is the one libsrtp left, and stays
  ready. A following media datagram that libsrtp accepts in that session is unprotected
  and delivered to the receive callback as usual.
\<close>

theorem incoming_unprotect_failure_is_soft:
  assumes "mInitDone s" and "p \<noteq> []" and "20 \<le> hd p" and "hd p \<le> 63"
    and "srtp_unprotect lib (mSrtpIn s) p (length p) = (err, sess', buf', n')"
    and "err \<noteq> srtp_err_status_ok"
    and "incoming lib p s = (r, s')"
  shows "r = Returned () \<and>
         calls (new_events s s') = [SrtpUnprotect p (length p)] \<and>
         filter is_warning (new_events s s') =
           [Plog warning (if err = srtp_err_status_replay_fail lib
                          then [Str ''Incoming SRTP packet is a replay'']
                          else [Str ''SRTP unprotect error, status='', Num err])] \<and>
         s'\<lparr>trace := trace s\<rparr> = s\<lparr>mSrtpIn := sess'\<rparr> \<and>
         mInitDone s' \<and>
         (\<forall>q err2 sess2 buf2 n2.
            q \<noteq> [] \<and> 20 \<le> hd q \<and> hd q \<le> 63 \<and>
            srtp_unprotect lib sess' q (length q) = (err2, sess2, buf2, n2) \<and>
            err2 = srtp_err_status_ok \<longrightarrow>
              fst (incoming lib q s') = Returned () \<and>
              calls (new_events s' (snd (incoming lib q s'))) =
                [SrtpUnprotect q (length q), SrtpRecvCallback (resize n2 buf2)])"
proof -
  have s': "s' = s\<lparr>mSrtpIn := sess',
        trace := trace s @
          [Plog verbose [Str ''Demultiplexing packet with first byte, value='', Num (uint (hd p))],
           Plog verbose [Str ''Incoming SRTP packet, size='', Num (int (length p))],
           SrtpUnprotect p (length p),
           Plog warning (if err = srtp_err_status_replay_fail lib
                            then [Str ''Incoming SRTP packet is a replay'']
                            else [Str ''SRTP unprotect error, status='', Num err])]\<rparr>"
    and r: "r = Returned ()"
    using assms(6,7) incoming_srtp_eq [OF assms(1-5)]
    by (simp_all add: srtp_err_status_ok_def)
  have ready: "mInitDone s'" and sess: "mSrtpIn s' = sess'"
    using assms(1) by (simp_all add: s')
  have next_packet: "fst (incoming lib q s') = Returned () \<and>
        calls (new_events s' (snd (incoming lib q s'))) =
          [SrtpUnprotect q (length q), SrtpRecvCallback (resize n2 buf2)]"
    if "q \<noteq> []" "20 \<le> hd q" "hd q \<le> 63"
      "srtp_unprotect lib sess' q (length q) = (err2, sess2, buf2, n2)"
      "err2 = srtp_err_status_ok"
    for q err2 sess2 buf2 n2
  proof -
    have u: "srtp_unprotect lib (mSrtpIn s') q (length q) = (err2, sess2, buf2, n2)"
      using that(4) sess by simp
    show ?thesis
      using that(5) incoming_srtp_eq [OF ready that(1-3) u]
      by (simp add: srtp_err_status_ok_def calls_def)
  qed
  have "calls (new_events s s') = [SrtpUnprotect p (length p)]"
    by (simp add: s' calls_def)
  moreover have "filter is_warning (new_events s s') =
           [Plog warning (if err = srtp_err_status_replay_fail lib
                          then [Str ''Incoming SRTP packet is a replay'']
                          else [Str ''SRTP unprotect error, status='', Num err])]"
    by (simp add: s')
  moreover have "s'\<lparr>trace := trace s\<rparr> = s\<lparr>mSrtpIn := sess'\<rparr>"
    by (simp add: s')
  ultimately show ?thesis
    using r ready next_packet by blast
qed


theorem incoming_unprotect_failure_is_soft_witness:
  "(mInitDone (toy_transport True True []) \<and>
   srtp_unprotect (toy_backend False) (mSrtpIn (toy_transport True True []))
      [0x20, 1, 2] (length [0x20, 1, 2 :: byte]) = (7, [], [0x20, 1, 2], 3) \<and>
   incoming (toy_backend False) [0x20, 1, 2] (toy_transport True True []) =
     (Returned (),
      (toy_transport True True [])
        \<lparr>mSrtpIn := [],
         trace := [Plog verbose [Str ''Demultiplexing packet with first byte, value='', Num 32],
                   Plog verbose [Str ''Incoming SRTP packet, size='', Num 3],
                   SrtpUnprotect [0x20, 1, 2] 3,
                   Plog warning [Str ''SRTP unprotect error, status='', Num 7]]\<rparr>) \<and>
   calls (new_events
      ((toy_transport True True [])
        \<lparr>mSrtpIn := [],
         trace := [Plog verbose [Str ''Demultiplexing packet with first byte, value='', Num 32],
                   Plog verbose [Str ''Incoming SRTP packet, size='', Num 3],
                   SrtpUnprotect [0x20, 1, 2] 3,
                   Plog warning [Str ''SRTP unprotect error, status='', Num 7]]\<rparr>)
      (snd (incoming (toy_backend False) [0x20, 1, 2, 0xA5]
        ((toy_transport True True [])
        \<lparr>mSrtpIn := [],
         trace := [Plog verbose [Str ''Demultiplexing packet with first byte, value='', Num 32],
                   Plog verbose [Str ''Incoming SRTP packet, size='', Num 3],
                   SrtpUnprotect [0x20, 1, 2] 3,
                   Plog warning [Str ''SRTP unprotect error, status='', Num 7]]\<rparr>)))) =
     [SrtpUnprotect [0x20, 1, 2, 0xA5] 4, SrtpRecvCallback [0x20, 1, 2]]) \<and>
   (fst (incoming (toy_backend False) [0x20, 1, 2, 0xA5] (toy_seen [1])) = Returned () \<and>
   calls (new_events (toy_seen [1])
      (snd (incoming (toy_backend False) [0x20, 1, 2, 0xA5] (toy_seen [1])))) =
     [SrtpUnprotect [0x20, 1, 2, 0xA5] 4] \<and>
   filter is_warning (new_events (toy_seen [1])
      (snd (incoming (toy_backend False) [0x20, 1, 2, 0xA5] (toy_seen [1])))) =
     [Plog warning [Str ''Incoming SRTP packet is a replay'']] \<and>
   calls (new_events (snd (incoming (toy_backend False) [0x20, 1, 2, 0xA5] (toy_seen [1])))
      (snd (incoming (toy_backend False) [0x20, 5, 2, 0xA5]
         (snd (incoming (toy_backend False) [0x20, 1, 2, 0xA5] (toy_seen [1])))))) =
     [SrtpUnprotect [0x20, 5, 2, 0xA5] 4, SrtpRecvCallback [0x20, 5, 2]])"
proof -
  have h: "mInitDone (toy_transport True True [])" by (simp add: toy_transport_def)
  have b: "[0x20, 1, 2 :: byte] \<noteq> []" "20 \<le> hd [0x20, 1, 2 :: byte]" "hd [0x20, 1, 2 :: byte] \<le> 63"
    by simp_all
  have u: "srtp_unprotect (toy_backend False) (mSrtpIn (toy_transport True True []))
      [0x20, 1, 2] (length [0x20, 1, 2 :: byte]) = (7, [], [0x20, 1, 2], 3)"
    by (simp add: toy_backend_def toy_transport_def toy_unprotect_def)
  have z: "(7::int) \<noteq> srtp_err_status_ok" by (simp add: srtp_err_status_ok_def)
  have e: "incoming (toy_backend False) [0x20, 1, 2] (toy_transport True True []) =
     (Returned (),
      (toy_transport True True [])
        \<lparr>mSrtpIn := [],
         trace := [Plog verbose [Str ''Demultiplexing packet with first byte, value='', Num 32],
                   Plog verbose [Str ''Incoming SRTP packet, size='', Num 3],
                   SrtpUnprotect [0x20, 1, 2] 3,
                   Plog warning [Str ''SRTP unprotect error, status='', Num 7]]\<rparr>)"
    apply (simp add: incoming_def toy_transport_def toy_backend_def plog_def emit_def Let_def)
    apply (simp add: toy_unprotect_def plog_def emit_def Let_def)
    done
  have v: "srtp_unprotect (toy_backend False) [] [0x20, 1, 2, 0xA5] (length [0x20, 1, 2, 0xA5 :: byte]) =
      (0, [1], [0x20, 1, 2, 0xA5], 3)"
    by (simp add: toy_backend_def toy_unprotect_def)
  note main = incoming_unprotect_failure_is_soft [OF h b u z e]
  have c: "calls (new_events
      ((toy_transport True True [])
        \<lparr>mSrtpIn := [],
         trace := [Plog verbose [Str ''Demultiplexing packet with first byte, value='', Num 32],
                   Plog verbose [Str ''Incoming SRTP packet, size='', Num 3],
                   SrtpUnprotect [0x20, 1, 2] 3,
                   Plog warning [Str ''SRTP unprotect error, status='', Num 7]]\<rparr>)
      (snd (incoming (toy_backend False) [0x20, 1, 2, 0xA5]
        ((toy_transport True True [])
        \<lparr>mSrtpIn := [],
         trace := [Plog verbose [Str ''Demultiplexing packet with first byte, value='', Num 32],
                   Plog verbose [Str ''Incoming SRTP packet, size='', Num 3],
                   SrtpUnprotect [0x20, 1, 2] 3,
                   Plog warning [Str ''SRTP unprotect error, status='', Num 7]]\<rparr>)))) =
     [SrtpUnprotect [0x20, 1, 2, 0xA5] 4, SrtpRecvCallback [0x20, 1, 2]]"
  proof -
    from main have "\<forall>q err2 sess2 buf2 n2.
            q \<noteq> [] \<and> 20 \<le> hd q \<and> hd q \<le> 63 \<and>
            srtp_unprotect (toy_backend False) [] q (length q) = (err2, sess2, buf2, n2) \<and>
            err2 = srtp_err_status_ok \<longrightarrow>
              calls (new_events ((toy_transport True True [])
        \<lparr>mSrtpIn := [],
         trace := [Plog verbose [Str ''Demultiplexing packet with first byte, value='', Num 32],
                   Plog verbose [Str ''Incoming SRTP packet, size='', Num 3],
                   SrtpUnprotect [0x20, 1, 2] 3,
                   Plog warning [Str ''SRTP unprotect error, status='', Num 7]]\<rparr>) (snd (incoming (toy_backend False) q ((toy_transport True True [])
        \<lparr>mSrtpIn := [],
         trace := [Plog verbose [Str ''Demultiplexing packet with first byte, value='', Num 32],
                   Plog verbose [Str ''Incoming SRTP packet, size='', Num 3],
                   SrtpUnprotect [0x20, 1, 2] 3,
                   Plog warning [Str ''SRTP unprotect error, status='', Num 7]]\<rparr>)))) =
                [SrtpUnprotect q (length q), SrtpRecvCallback (resize n2 buf2)]"
      by blast
    from this [rule_format, of "[0x20, 1, 2, 0xA5]" 0 "[1]" "[0x20, 1, 2, 0xA5]" 3] v
    show ?thesis by (simp add: srtp_err_status_ok_def resize_def)
  qed
  have first: "mInitDone (toy_transport True True []) \<and>
   srtp_unprotect (toy_backend False) (mSrtpIn (toy_transport True True []))
      [0x20, 1, 2] (length [0x20, 1, 2 :: byte]) = (7, [], [0x20, 1, 2], 3) \<and>
   incoming (toy_backend False) [0x20, 1, 2] (toy_transport True True []) =
     (Returned (),
      (toy_transport True True [])
        \<lparr>mSrtpIn := [],
         trace := [Plog verbose [Str ''Demultiplexing packet with first byte, value='', Num 32],
                   Plog verbose [Str ''Incoming SRTP packet, size='', Num 3],
                   SrtpUnprotect [0x20, 1, 2] 3,
                   Plog warning [Str ''SRTP unprotect error, status='', Num 7]]\<rparr>) \<and>
   calls (new_events
      ((toy_transport True True [])
        \<lparr>mSrtpIn := [],
         trace := [Plog verbose [Str ''Demultiplexing packet with first byte, value='', Num 32],
                   Plog verbose [Str ''Incoming SRTP packet, size='', Num 3],
                   SrtpUnprotect [0x20, 1, 2] 3,
                   Plog warning [Str ''SRTP unprotect error, status='', Num 7]]\<rparr>)
      (snd (incoming (toy_backend False) [0x20, 1, 2, 0xA5]
        ((toy_transport True True [])
        \<lparr>mSrtpIn := [],
         trace := [Plog verbose [Str ''Demultiplexing packet with first byte, value='', Num 32],
                   Plog verbose [Str ''Incoming SRTP packet, size='', Num 3],
                   SrtpUnprotect [0x20, 1, 2] 3,
                   Plog warning [Str ''SRTP unprotect error, status='', Num 7]]\<rparr>)))) =
     [SrtpUnprotect [0x20, 1, 2, 0xA5] 4, SrtpRecvCallback [0x20, 1, 2]]"
    by (intro conjI h u e c)
  have replay: "fst (incoming (toy_backend False) [0x20, 1, 2, 0xA5] (toy_seen [1])) = Returned () \<and>
   calls (new_events (toy_seen [1])
      (snd (incoming (toy_backend False) [0x20, 1, 2, 0xA5] (toy_seen [1])))) =
     [SrtpUnprotect [0x20, 1, 2, 0xA5] 4] \<and>
   filter is_warning (new_events (toy_seen [1])
      (snd (incoming (toy_backend False) [0x20, 1, 2, 0xA5] (toy_seen [1])))) =
     [Plog warning [Str ''Incoming SRTP packet is a replay'']] \<and>
   calls (new_events (snd (incoming (toy_backend False) [0x20, 1, 2, 0xA5] (toy_seen [1])))
      (snd (incoming (toy_backend False) [0x20, 5, 2, 0xA5]
         (snd (incoming (toy_backend False) [0x20, 1, 2, 0xA5] (toy_seen [1])))))) =
     [SrtpUnprotect [0x20, 5, 2, 0xA5] 4, SrtpRecvCallback [0x20, 5, 2]]"
  proof -
    have h: "mInitDone (toy_seen [1])" by (simp add: toy_seen_def)
    have b: "[0x20, 1, 2, 0xA5 :: byte] \<noteq> []" "20 \<le> hd [0x20, 1, 2, 0xA5 :: byte]"
      "hd [0x20, 1, 2, 0xA5 :: byte] \<le> 63"
      by simp_all
    have u: "srtp_unprotect (toy_backend False) (mSrtpIn (toy_seen [1]))
        [0x20, 1, 2, 0xA5] (length [0x20, 1, 2, 0xA5 :: byte]) = (9, [1], [0x20, 1, 2, 0xA5], 4)"
      by (simp add: toy_backend_def toy_seen_def toy_unprotect_def)
    have z: "(9::int) \<noteq> srtp_err_status_ok" by (simp add: srtp_err_status_ok_def)
    have e: "incoming (toy_backend False) [0x20, 1, 2, 0xA5] (toy_seen [1]) =
       (fst (incoming (toy_backend False) [0x20, 1, 2, 0xA5] (toy_seen [1])),
        snd (incoming (toy_backend False) [0x20, 1, 2, 0xA5] (toy_seen [1])))"
      by simp
    have v: "[0x20, 5, 2, 0xA5 :: byte] \<noteq> [] \<and> 20 \<le> hd [0x20, 5, 2, 0xA5 :: byte] \<and>
        hd [0x20, 5, 2, 0xA5 :: byte] \<le> 63 \<and>
        srtp_unprotect (toy_backend False) [1] [0x20, 5, 2, 0xA5] (length [0x20, 5, 2, 0xA5 :: byte]) =
          (0, [5, 1], [0x20, 5, 2, 0xA5], 3) \<and> (0::int) = srtp_err_status_ok"
      by (simp add: toy_backend_def toy_unprotect_def srtp_err_status_ok_def)
    note again = incoming_unprotect_failure_is_soft [OF h b u z e]
    from again have nxt: "\<forall>q err2 sess2 buf2 n2.
              q \<noteq> [] \<and> 20 \<le> hd q \<and> hd q \<le> 63 \<and>
              srtp_unprotect (toy_backend False) [1] q (length q) = (err2, sess2, buf2, n2) \<and>
              err2 = srtp_err_status_ok \<longrightarrow>
                calls (new_events (snd (incoming (toy_backend False) [0x20, 1, 2, 0xA5] (toy_seen [1])))
                  (snd (incoming (toy_backend False) q
                     (snd (incoming (toy_backend False) [0x20, 1, 2, 0xA5] (toy_seen [1])))))) =
                  [SrtpUnprotect q (length q), SrtpRecvCallback (resize n2 buf2)]"
      by blast
    have c4: "calls (new_events (snd (incoming (toy_backend False) [0x20, 1, 2, 0xA5] (toy_seen [1])))
        (snd (incoming (toy_backend False) [0x20, 5, 2, 0xA5]
           (snd (incoming (toy_backend False) [0x20, 1, 2, 0xA5] (toy_seen [1])))))) =
       [SrtpUnprotect [0x20, 5, 2, 0xA5] 4, SrtpRecvCallback [0x20, 5, 2]]"
      using nxt [rule_format, OF v] by (simp add: resize_def)
    from again c4 show ?thesis by (simp add: toy_backend_def)
  qed
  show ?thesis by (rule conjI [OF first replay])
qed

text \<open>
  C7. \<^verbatim>\<open>sendMedia\<close> once the keys are derived, when \<^verbatim>\<open>srtp_protect\<close> reports any
  failure: the call throws a \<^verbatim>\<open>runtime_error\<close> ("SRTP packet is a replay" for the replay
  status, "SRTP protect error, status=..." otherwise), and the only call made is the one
  to \<^verbatim>\<open>srtp_protect\<close>: nothing is handed to the lower transport.
\<close>

theorem sendMedia_protect_failure_is_fatal:
  assumes "mInitDone s"
    and "srtp_protect lib (mSrtpOut s) (resize (length m + SRTP_MAX_TRAILER_LEN lib) m) (length m)
           = (err, sess', buf', n')"
    and "err \<noteq> srtp_err_status_ok"
    and "sendMedia lib (Some m) s = (r, m', s')"
  shows "r = Threw (runtime_error (if err = srtp_err_status_replay_fail lib
                                   then [Str ''SRTP packet is a replay'']
                                   else [Str ''SRTP protect error, status='', Num err])) \<and>
         calls (new_events s s') =
           [SrtpProtect (resize (length m + SRTP_MAX_TRAILER_LEN lib) m) (length m)] \<and>
         filter is_outgoing (new_events s s') = []"
  using assms
  by (auto simp: sendMedia_ready_eq srtp_err_status_ok_def calls_def)

theorem sendMedia_protect_failure_is_fatal_witness:
  "(mInitDone (toy_transport True True []) \<and>
   srtp_protect (toy_backend False) (mSrtpOut (toy_transport True True []))
      (resize (length [0x80 :: byte] + SRTP_MAX_TRAILER_LEN (toy_backend False)) [0x80])
      (length [0x80 :: byte]) = (2, [], [0x80, 0, 0, 0, 0], 1) \<and>
   sendMedia (toy_backend False) (Some [0x80]) (toy_transport True True []) =
     (Threw (runtime_error [Str ''SRTP protect error, status='', Num 2]), Some [0x80, 0, 0, 0, 0],
      (toy_transport True True [])
        \<lparr>mSrtpOut := [],
         trace := [Plog verbose [Str ''Send size='', Num 1],
                   SrtpProtect [0x80, 0, 0, 0, 0] 1]\<rparr>) \<and>
   calls (new_events (toy_transport True True [])
      ((toy_transport True True [])
        \<lparr>mSrtpOut := [],
         trace := [Plog verbose [Str ''Send size='', Num 1],
                   SrtpProtect [0x80, 0, 0, 0, 0] 1]\<rparr>)) =
     [SrtpProtect [0x80, 0, 0, 0, 0] 1]) \<and>
   (fst (sendMedia (toy_backend False) (Some [0x80, 1, 2]) (toy_seen [1])) =
     Threw (runtime_error [Str ''SRTP packet is a replay'']) \<and>
   filter is_outgoing (new_events (toy_seen [1])
     (snd (snd (sendMedia (toy_backend False) (Some [0x80, 1, 2]) (toy_seen [1]))))) = [])"
proof -
  have h: "mInitDone (toy_transport True True [])" by (simp add: toy_transport_def)
  have p: "srtp_protect (toy_backend False) (mSrtpOut (toy_transport True True []))
      (resize (length [0x80 :: byte] + SRTP_MAX_TRAILER_LEN (toy_backend False)) [0x80])
      (length [0x80 :: byte]) = (2, [], [0x80, 0, 0, 0, 0], 1)"
    by (simp add: toy_backend_def toy_transport_def toy_protect_def resize_def replicate_4)
  have z: "(2::int) \<noteq> srtp_err_status_ok" by (simp add: srtp_err_status_ok_def)
  have e: "sendMedia (toy_backend False) (Some [0x80]) (toy_transport True True []) =
     (Threw (runtime_error [Str ''SRTP protect error, status='', Num 2]), Some [0x80, 0, 0, 0, 0],
      (toy_transport True True [])
        \<lparr>mSrtpOut := [],
         trace := [Plog verbose [Str ''Send size='', Num 1],
                   SrtpProtect [0x80, 0, 0, 0, 0] 1]\<rparr>)"
    apply (simp add: sendMedia_def toy_transport_def toy_backend_def plog_def emit_def Let_def)
    apply (simp add: resize_def toy_protect_def replicate_4 plog_def emit_def Let_def)
    done
  note main = sendMedia_protect_failure_is_fatal [OF h p z e]
  have c: "calls (new_events (toy_transport True True [])
      ((toy_transport True True [])
        \<lparr>mSrtpOut := [],
         trace := [Plog verbose [Str ''Send size='', Num 1],
                   SrtpProtect [0x80, 0, 0, 0, 0] 1]\<rparr>)) =
     [SrtpProtect [0x80, 0, 0, 0, 0] 1]"
    using main by (simp add: resize_def toy_backend_def replicate_4)
  have first: "mInitDone (toy_transport True True []) \<and>
   srtp_protect (toy_backend False) (mSrtpOut (toy_transport True True []))
      (resize (length [0x80 :: byte] + SRTP_MAX_TRAILER_LEN (toy_backend False)) [0x80])
      (length [0x80 :: byte]) = (2, [], [0x80, 0, 0, 0, 0], 1) \<and>
   sendMedia (toy_backend False) (Some [0x80]) (toy_transport True True []) =
     (Threw (runtime_error [Str ''SRTP protect error, status='', Num 2]), Some [0x80, 0, 0, 0, 0],
      (toy_transport True True [])
        \<lparr>mSrtpOut := [],
         trace := [Plog verbose [Str ''Send size='', Num 1],
                   SrtpProtect [0x80, 0, 0, 0, 0] 1]\<rparr>) \<and>
   calls (new_events (toy_transport True True [])
      ((toy_transport True True [])
        \<lparr>mSrtpOut := [],
         trace := [Plog verbose [Str ''Send size='', Num 1],
                   SrtpProtect [0x80, 0, 0, 0, 0] 1]\<rparr>)) =
     [SrtpProtect [0x80, 0, 0, 0, 0] 1]"
    by (intro conjI h p e c)
  have replay: "fst (sendMedia (toy_backend False) (Some [0x80, 1, 2]) (toy_seen [1])) =
     Threw (runtime_error [Str ''SRTP packet is a replay'']) \<and>
   filter is_outgoing (new_events (toy_seen [1])
     (snd (snd (sendMedia (toy_backend False) (Some [0x80, 1, 2]) (toy_seen [1]))))) = []"
  proof -
    have h: "mInitDone (toy_seen [1])" by (simp add: toy_seen_def)
    have p: "srtp_protect (toy_backend False) (mSrtpOut (toy_seen [1]))
        (resize (length [0x80, 1, 2 :: byte] + SRTP_MAX_TRAILER_LEN (toy_backend False)) [0x80, 1, 2])
        (length [0x80, 1, 2 :: byte]) = (9, [1], [0x80, 1, 2, 0, 0, 0, 0], 3)"
      by (simp add: toy_backend_def toy_seen_def toy_protect_def resize_def replicate_4)
    have z: "(9::int) \<noteq> srtp_err_status_ok" by (simp add: srtp_err_status_ok_def)
    have e: "sendMedia (toy_backend False) (Some [0x80, 1, 2]) (toy_seen [1]) =
       (fst (sendMedia (toy_backend False) (Some [0x80, 1, 2]) (toy_seen [1])),
        fst (snd (sendMedia (toy_backend False) (Some [0x80, 1, 2]) (toy_seen [1]))),
        snd (snd (sendMedia (toy_backend False) (Some [0x80, 1, 2]) (toy_seen [1]))))"
      by simp
    from sendMedia_protect_failure_is_fatal [OF h p z e]
    show ?thesis by (simp add: toy_backend_def)
  qed
  show ?thesis by (rule conjI [OF first replay])
qed

text \<open>
  C8. \<^verbatim>\<open>postHandshake\<close> on a transport whose keys are derived returns at once and
  leaves the transport, trace included, exactly as it was. A first call (keys not yet
  derived) that returns has exported keying material exactly once, has added exactly
  one stream to each libsrtp session, and has set \<open>mInitDone\<close>; every later call is
  then such a no-op.
\<close>

theorem postHandshake_idempotent:
  "(mInitDone s \<longrightarrow> postHandshake lib s = (Returned (), s)) \<and>
   (\<not> mInitDone s \<and> postHandshake lib s = (Returned (), s') \<longrightarrow>
      mInitDone s' \<and>
      filter is_export (new_events s s') =
        [if USE_GNUTLS lib then GnutlsSrtpGetKeys 60
         else SslExportKeyingMaterial 60 ''EXTRACTOR-dtls_srtp'' None] \<and>
      length (stream_keys SrtpIn (new_events s s')) = 1 \<and>
      length (stream_keys SrtpOut (new_events s s')) = 1 \<and>
      postHandshake lib s' = (Returned (), s'))"
proof (intro conjI impI)
  assume "mInitDone s"
  then show "postHandshake lib s = (Returned (), s)" by (rule postHandshake_ready)
next
  assume a: "\<not> mInitDone s \<and> postHandshake lib s = (Returned (), s')"
  then obtain cK cS sK sS sin' sout' where
    s': "s' = s\<lparr>mInitDone := True, mSrtpIn := sin', mSrtpOut := sout',
            trace := trace (snd (deriveMaterial lib s)) @
              [SrtpAddStream SrtpIn (inbound_policy (mIsClient s) (sessionKey cK cS) (sessionKey sK sS)),
               SrtpAddStream SrtpOut (outbound_policy (mIsClient s) (sessionKey cK cS) (sessionKey sK sS))]\<rparr>"
    using postHandshake_returns [of s lib s'] by blast
  show "mInitDone s'" by (simp add: s')
  then show "postHandshake lib s' = (Returned (), s')" by (rule postHandshake_ready)
  show "filter is_export (new_events s s') =
        [if USE_GNUTLS lib then GnutlsSrtpGetKeys 60
         else SslExportKeyingMaterial 60 ''EXTRACTOR-dtls_srtp'' None]"
    by (simp add: s' deriveMaterial_state materialLen_60 extractor_label_def new_events_def)
  show "length (stream_keys SrtpIn (new_events s s')) = 1"
    by (simp add: s' deriveMaterial_state new_events_def)
  show "length (stream_keys SrtpOut (new_events s s')) = 1"
    by (simp add: s' deriveMaterial_state new_events_def)
qed

theorem postHandshake_idempotent_witness:
  "\<not> mInitDone (toy_transport False True (counting_bytes 60)) \<and>
   fst (postHandshake (toy_backend False) (toy_transport False True (counting_bytes 60))) = Returned () \<and>
   mInitDone (snd (postHandshake (toy_backend False) (toy_transport False True (counting_bytes 60)))) \<and>
   filter is_export (new_events (toy_transport False True (counting_bytes 60))
      (snd (postHandshake (toy_backend False) (toy_transport False True (counting_bytes 60))))) =
     [SslExportKeyingMaterial 60 ''EXTRACTOR-dtls_srtp'' None] \<and>
   postHandshake (toy_backend False)
      (snd (postHandshake (toy_backend False) (toy_transport False True (counting_bytes 60)))) =
     (Returned (), snd (postHandshake (toy_backend False) (toy_transport False True (counting_bytes 60))))"
proof -
  have n: "\<not> mInitDone (toy_transport False True (counting_bytes 60))"
    by (simp add: toy_transport_def)
  have g: "\<not> USE_GNUTLS (toy_backend False)" by (simp add: toy_backend_def)
  note e = toy_postHandshake_60 [of True]
  have f: "fst (postHandshake (toy_backend False) (toy_transport False True (counting_bytes 60))) = Returned ()"
    using e by (metis fst_conv)
  from postHandshake_idempotent [where s = "toy_transport False True (counting_bytes 60)"
      and lib = "toy_backend False"
      and s' = "snd (postHandshake (toy_backend False) (toy_transport False True (counting_bytes 60)))"]
    n e g
  show ?thesis using f by simp
qed

text \<open>
  C9. \<^verbatim>\<open>postHandshake\<close> on a transport whose keys are not derived asks the TLS library
  once, for \<open>60 = 2 * (16 + 14)\<close> bytes: in the OpenSSL build with the label
  \<^verbatim>\<open>EXTRACTOR-dtls_srtp\<close> and no context; in the GnuTLS build through
  \<^verbatim>\<open>gnutls_srtp_get_keys\<close>. If the OpenSSL export fails (result \<open>\<le> 0\<close>), if
  \<^verbatim>\<open>gnutls::check\<close> throws on the GnuTLS result, or if one of the four GnuTLS datums has
  not the length 16 (key) or 14 (salt), the call throws, no stream is added to a libsrtp
  session, and \<open>mInitDone\<close> stays false. Whatever \<^verbatim>\<open>postHandshake\<close> throws,
  \<open>mInitDone\<close> stays false.
\<close>

theorem postHandshake_export_failure_is_fatal:
  "materialLen = 2 * (16 + 14) \<and> materialLen = 60 \<and>
   (\<not> mInitDone s \<longrightarrow>
      filter is_export (new_events s (snd (postHandshake lib s))) =
        [if USE_GNUTLS lib then GnutlsSrtpGetKeys 60
         else SslExportKeyingMaterial 60 ''EXTRACTOR-dtls_srtp'' None]) \<and>
   (\<not> mInitDone s \<and> \<not> USE_GNUTLS lib \<and>
    fst (SSL_export_keying_material lib (mSsl s) 60 ''EXTRACTOR-dtls_srtp'' None) \<le> 0 \<longrightarrow>
      fst (postHandshake lib s) =
        Threw (runtime_error [Str ''Failed to derive SRTP keys: '', LibError]) \<and>
      \<not> mInitDone (snd (postHandshake lib s)) \<and>
      filter is_add_stream (new_events s (snd (postHandshake lib s))) = []) \<and>
   (\<not> mInitDone s \<and> USE_GNUTLS lib \<and>
    gnutls_check lib (fst (gnutls_srtp_get_keys lib (mSsl s) 60)) ''Failed to derive SRTP keys''
      = Threw e \<longrightarrow>
      fst (postHandshake lib s) = Threw e \<and>
      \<not> mInitDone (snd (postHandshake lib s)) \<and>
      filter is_add_stream (new_events s (snd (postHandshake lib s))) = []) \<and>
   (\<not> mInitDone s \<and> USE_GNUTLS lib \<and>
    gnutls_srtp_get_keys lib (mSsl s) 60 = (ret, ck, cs, sk, ss) \<and>
    gnutls_check lib ret ''Failed to derive SRTP keys'' = Returned b \<and>
    (datum_size ck \<noteq> 16 \<or> datum_size cs \<noteq> 14 \<or> datum_size sk \<noteq> 16 \<or> datum_size ss \<noteq> 14) \<longrightarrow>
      (\<exists>what. fst (postHandshake lib s) = Threw (logic_error what)) \<and>
      \<not> mInitDone (snd (postHandshake lib s)) \<and>
      filter is_add_stream (new_events s (snd (postHandshake lib s))) = []) \<and>
   (\<not> mInitDone s \<and> fst (postHandshake lib s) = Threw e \<longrightarrow>
      \<not> mInitDone (snd (postHandshake lib s)))"
proof (intro conjI)
  show "materialLen = 2 * (16 + 14)" "materialLen = 60"
    by (simp_all add: materialLen_60)
  show "\<not> mInitDone s \<longrightarrow>
      filter is_export (new_events s (snd (postHandshake lib s))) =
        [if USE_GNUTLS lib then GnutlsSrtpGetKeys 60
         else SslExportKeyingMaterial 60 ''EXTRACTOR-dtls_srtp'' None]"
    using postHandshake_exports_once by blast
  show "\<not> mInitDone s \<and> \<not> USE_GNUTLS lib \<and>
    fst (SSL_export_keying_material lib (mSsl s) 60 ''EXTRACTOR-dtls_srtp'' None) \<le> 0 \<longrightarrow>
      fst (postHandshake lib s) =
        Threw (runtime_error [Str ''Failed to derive SRTP keys: '', LibError]) \<and>
      \<not> mInitDone (snd (postHandshake lib s)) \<and>
      filter is_add_stream (new_events s (snd (postHandshake lib s))) = []"
  proof
    assume a: "\<not> mInitDone s \<and> \<not> USE_GNUTLS lib \<and>
      fst (SSL_export_keying_material lib (mSsl s) 60 ''EXTRACTOR-dtls_srtp'' None) \<le> 0"
    obtain r material where
      x: "SSL_export_keying_material lib (mSsl s) materialLen extractor_label None = (r, material)"
      by (cases "SSL_export_keying_material lib (mSsl s) materialLen extractor_label None")
    with a have "r \<le> 0" by (simp add: materialLen_60 extractor_label_def)
    with a x have "fst (deriveMaterial lib s) =
        Threw (runtime_error [Str ''Failed to derive SRTP keys: '', LibError])"
      by (simp add: deriveMaterial_openssl)
    with a show "fst (postHandshake lib s) =
        Threw (runtime_error [Str ''Failed to derive SRTP keys: '', LibError]) \<and>
      \<not> mInitDone (snd (postHandshake lib s)) \<and>
      filter is_add_stream (new_events s (snd (postHandshake lib s))) = []"
      using postHandshake_derive_throws_summary by blast
  qed
  show "\<not> mInitDone s \<and> USE_GNUTLS lib \<and>
    gnutls_check lib (fst (gnutls_srtp_get_keys lib (mSsl s) 60)) ''Failed to derive SRTP keys''
      = Threw e \<longrightarrow>
      fst (postHandshake lib s) = Threw e \<and>
      \<not> mInitDone (snd (postHandshake lib s)) \<and>
      filter is_add_stream (new_events s (snd (postHandshake lib s))) = []"
  proof
    assume a: "\<not> mInitDone s \<and> USE_GNUTLS lib \<and>
      gnutls_check lib (fst (gnutls_srtp_get_keys lib (mSsl s) 60)) ''Failed to derive SRTP keys''
        = Threw e"
    obtain ret ck cs sk ss where
      x: "gnutls_srtp_get_keys lib (mSsl s) materialLen = (ret, ck, cs, sk, ss)"
      by (cases "gnutls_srtp_get_keys lib (mSsl s) materialLen") auto
    with a have "gnutls_check lib ret ''Failed to derive SRTP keys'' = Threw e"
      by (simp add: materialLen_60)
    with a x have "fst (deriveMaterial lib s) = Threw e"
      by (simp add: deriveMaterial_gnutls)
    with a show "fst (postHandshake lib s) = Threw e \<and>
      \<not> mInitDone (snd (postHandshake lib s)) \<and>
      filter is_add_stream (new_events s (snd (postHandshake lib s))) = []"
      using postHandshake_derive_throws_summary by blast
  qed
  show "\<not> mInitDone s \<and> USE_GNUTLS lib \<and>
    gnutls_srtp_get_keys lib (mSsl s) 60 = (ret, ck, cs, sk, ss) \<and>
    gnutls_check lib ret ''Failed to derive SRTP keys'' = Returned b \<and>
    (datum_size ck \<noteq> 16 \<or> datum_size cs \<noteq> 14 \<or> datum_size sk \<noteq> 16 \<or> datum_size ss \<noteq> 14) \<longrightarrow>
      (\<exists>what. fst (postHandshake lib s) = Threw (logic_error what)) \<and>
      \<not> mInitDone (snd (postHandshake lib s)) \<and>
      filter is_add_stream (new_events s (snd (postHandshake lib s))) = []"
  proof
    assume a: "\<not> mInitDone s \<and> USE_GNUTLS lib \<and>
      gnutls_srtp_get_keys lib (mSsl s) 60 = (ret, ck, cs, sk, ss) \<and>
      gnutls_check lib ret ''Failed to derive SRTP keys'' = Returned b \<and>
      (datum_size ck \<noteq> 16 \<or> datum_size cs \<noteq> 14 \<or> datum_size sk \<noteq> 16 \<or> datum_size ss \<noteq> 14)"
    then have x: "gnutls_srtp_get_keys lib (mSsl s) materialLen = (ret, ck, cs, sk, ss)"
      by (simp add: materialLen_60)
    from a have "\<exists>what. fst (deriveMaterial lib s) = Threw (logic_error what)"
      by (auto simp: deriveMaterial_gnutls [OF _ x] SRTP_AES_128_KEY_LEN_def SRTP_SALT_LEN_def)
    then obtain what where "fst (deriveMaterial lib s) = Threw (logic_error what)" ..
    with a show "(\<exists>what. fst (postHandshake lib s) = Threw (logic_error what)) \<and>
      \<not> mInitDone (snd (postHandshake lib s)) \<and>
      filter is_add_stream (new_events s (snd (postHandshake lib s))) = []"
      using postHandshake_derive_throws_summary by blast
  qed
  show "\<not> mInitDone s \<and> fst (postHandshake lib s) = Threw e \<longrightarrow>
      \<not> mInitDone (snd (postHandshake lib s))"
    using postHandshake_throws_not_ready by blast
qed

theorem postHandshake_export_failure_is_fatal_witness:
  "fst (postHandshake (toy_backend False) (toy_transport False True (counting_bytes 59))) =
     Threw (runtime_error [Str ''Failed to derive SRTP keys: '', LibError]) \<and>
   \<not> mInitDone (snd (postHandshake (toy_backend False) (toy_transport False True (counting_bytes 59)))) \<and>
   fst (postHandshake (toy_backend True) (toy_transport False True (counting_bytes 59))) =
     Threw (runtime_error [Str ''Failed to derive SRTP keys'', Str '': '', LibError]) \<and>
   \<not> mInitDone (snd (postHandshake (toy_backend True) (toy_transport False True (counting_bytes 59)))) \<and>
   (\<exists>what. fst (postHandshake (toy_backend True) (toy_transport False True (counting_bytes 61))) =
     Threw (logic_error what)) \<and>
   \<not> mInitDone (snd (postHandshake (toy_backend True) (toy_transport False True (counting_bytes 61)))) \<and>
   filter is_export (new_events (toy_transport False True (counting_bytes 59))
      (snd (postHandshake (toy_backend False) (toy_transport False True (counting_bytes 59))))) =
     [SslExportKeyingMaterial 60 ''EXTRACTOR-dtls_srtp'' None]"
proof -
  have n: "\<not> mInitDone (toy_transport False True m)" for m
    by (simp add: toy_transport_def)
  have o: "\<not> USE_GNUTLS (toy_backend False)" and g: "USE_GNUTLS (toy_backend True)"
    by (simp_all add: toy_backend_def)
  have x: "fst (SSL_export_keying_material (toy_backend False)
      (mSsl (toy_transport False True (counting_bytes 59))) 60 ''EXTRACTOR-dtls_srtp'' None) \<le> 0"
    by (simp add: toy_backend_def toy_transport_def toy_export_def)
  have y: "gnutls_check (toy_backend True)
      (fst (gnutls_srtp_get_keys (toy_backend True) (mSsl (toy_transport False True (counting_bytes 59))) 60))
      ''Failed to derive SRTP keys'' =
      Threw (runtime_error [Str ''Failed to derive SRTP keys'', Str '': '', LibError])"
    by (simp add: toy_backend_def toy_transport_def toy_get_keys_def toy_check_def)
  have z: "gnutls_srtp_get_keys (toy_backend True) (mSsl (toy_transport False True (counting_bytes 61))) 60 =
      (0, toy_datum (take 16 (counting_bytes 61)), toy_datum (take 14 (drop 32 (counting_bytes 61))),
          toy_datum (take 16 (drop 16 (counting_bytes 61))), toy_datum (drop 46 (counting_bytes 61)))"
    by (simp add: toy_backend_def toy_transport_def toy_get_keys_def)
  have c: "gnutls_check (toy_backend True) 0 ''Failed to derive SRTP keys'' = Returned True"
    by (simp add: toy_backend_def toy_check_def)
  have w: "datum_size (toy_datum (drop 46 (counting_bytes 61))) \<noteq> 14"
    by (simp add: toy_datum_def)
  note t1 = postHandshake_export_failure_is_fatal
    [where s = "toy_transport False True (counting_bytes 59)" and lib = "toy_backend False"]
  note t2 = postHandshake_export_failure_is_fatal
    [where s = "toy_transport False True (counting_bytes 59)" and lib = "toy_backend True"
      and e = "runtime_error [Str ''Failed to derive SRTP keys'', Str '': '', LibError]"]
  note t3 = postHandshake_export_failure_is_fatal
    [where s = "toy_transport False True (counting_bytes 61)" and lib = "toy_backend True"
      and ret = 0 and b = True
      and ck = "toy_datum (take 16 (counting_bytes 61))"
      and cs = "toy_datum (take 14 (drop 32 (counting_bytes 61)))"
      and sk = "toy_datum (take 16 (drop 16 (counting_bytes 61)))"
      and ss = "toy_datum (drop 46 (counting_bytes 61))"]
  have a1: "fst (postHandshake (toy_backend False) (toy_transport False True (counting_bytes 59))) =
     Threw (runtime_error [Str ''Failed to derive SRTP keys: '', LibError]) \<and>
     \<not> mInitDone (snd (postHandshake (toy_backend False) (toy_transport False True (counting_bytes 59))))"
    using t1 n o x by blast
  have a2: "fst (postHandshake (toy_backend True) (toy_transport False True (counting_bytes 59))) =
     Threw (runtime_error [Str ''Failed to derive SRTP keys'', Str '': '', LibError]) \<and>
     \<not> mInitDone (snd (postHandshake (toy_backend True) (toy_transport False True (counting_bytes 59))))"
    using t2 n g y by blast
  have a3: "(\<exists>what. fst (postHandshake (toy_backend True) (toy_transport False True (counting_bytes 61))) =
     Threw (logic_error what)) \<and>
     \<not> mInitDone (snd (postHandshake (toy_backend True) (toy_transport False True (counting_bytes 61))))"
    using t3 n g z c w by blast
  have a4: "filter is_export (new_events (toy_transport False True (counting_bytes 59))
      (snd (postHandshake (toy_backend False) (toy_transport False True (counting_bytes 59))))) =
     [SslExportKeyingMaterial 60 ''EXTRACTOR-dtls_srtp'' None]"
    using t1 n o by simp
  show ?thesis using a1 a2 a3 a4 by blast
qed

text \<open>
  C10. \<^verbatim>\<open>sendMedia\<close> called with a null message returns \<open>false\<close> at once, whether or
  not the keys are derived: it does not throw, it calls nothing (no send to the lower
  transport, not even a log line), and it leaves the transport as it was.
\<close>

theorem sendMedia_null_message:
  "sendMedia lib None s = (Returned False, None, s)"
  by (simp add: sendMedia_def)

end
